theory Spec2Isabelle
  imports Complex_Main "HOL-Library.Log_Nat"
begin

section \<open>JavaScript values\<close>

text \<open>
  The orchestrator (\<^verbatim>\<open>src/server.js\<close>) handles decoded JSON payloads whose shape it
  does not control, so the model keeps them untyped.  A JavaScript number is a finite
  value, one of the two infinities or NaN; a finite value is kept as the rational it
  denotes (the two zeros are one value), and arithmetic rounds its exact result to a
  double.  A decoded JSON number is a double already, so the finite values that reach
  the handlers are doubles.
\<close>

datatype jsnum = NaN | NegInf | Fin rat | PosInf

datatype jsval =
    Undefined
  | JNull
  | JBool bool
  | JNum jsnum
  | JStr string
  | JArr "jsval list"
  | JObj "(string \<times> jsval) list"

text \<open>
  Rounding of an exact value to an IEEE 754 double (binary64, round to nearest, ties to
  even).  The finite doubles are the values \<open>m * 2^e\<close> with \<open>\<bar>m\<bar> < 2^53\<close> and
  \<open>-1074 \<le> e \<le> 971\<close>; a value that rounds to \<open>2^1024\<close> or beyond overflows to an
  infinity.  \<open>ilog2 a\<close> is the integer part of the binary logarithm of \<open>a > 0\<close>.
\<close>

definition ilog2 :: "rat \<Rightarrow> int" where
  "ilog2 a =
     (case quotient_of a of
        (p, q) \<Rightarrow> (let d = bitlen p - bitlen q in if 2 powi d \<le> a then d else d - 1))"

definition round_half_even :: "rat \<Rightarrow> int" where
  "round_half_even x =
     (let f = \<lfloor>x\<rfloor>; r = x - of_int f
      in if r < 1 / 2 then f else if 1 / 2 < r then f + 1 else if even f then f else f + 1)"

definition round64 :: "rat \<Rightarrow> jsnum" where
  "round64 x =
     (if x = 0 then Fin 0
      else
        (let a = \<bar>x\<bar>;
             e = max (ilog2 a - 52) (- 1074);
             v = of_int (round_half_even (a / 2 powi e)) * 2 powi e
         in if 2 powi 1024 \<le> v then (if x < 0 then NegInf else PosInf)
            else Fin (if x < 0 then - v else v)))"

text \<open>
  Numeric \<^verbatim>\<open>+\<close> on two numbers: the exact sum of two finite values, rounded to a
  double.
\<close>

fun js_add :: "jsnum \<Rightarrow> jsnum \<Rightarrow> jsnum" where
  "js_add (Fin a) (Fin b) = round64 (a + b)"
| "js_add NaN _ = NaN"
| "js_add _ NaN = NaN"
| "js_add PosInf NegInf = NaN"
| "js_add NegInf PosInf = NaN"
| "js_add PosInf _ = PosInf"
| "js_add _ PosInf = PosInf"
| "js_add NegInf _ = NegInf"
| "js_add _ NegInf = NegInf"

text \<open>\<^verbatim>\<open>a >= b\<close> and \<^verbatim>\<open>a > b\<close> on two numbers: every comparison with NaN is false.\<close>

fun js_ge :: "jsnum \<Rightarrow> jsnum \<Rightarrow> bool" where
  "js_ge NaN _ = False"
| "js_ge _ NaN = False"
| "js_ge (Fin a) (Fin b) = (b \<le> a)"
| "js_ge PosInf _ = True"
| "js_ge _ NegInf = True"
| "js_ge _ _ = False"

fun js_gt :: "jsnum \<Rightarrow> jsnum \<Rightarrow> bool" where
  "js_gt NaN _ = False"
| "js_gt _ NaN = False"
| "js_gt (Fin a) (Fin b) = (b < a)"
| "js_gt PosInf PosInf = False"
| "js_gt NegInf NegInf = False"
| "js_gt PosInf _ = True"
| "js_gt _ NegInf = True"
| "js_gt _ _ = False"

text \<open>Truthiness, as tested by \<^verbatim>\<open>!x\<close>, \<^verbatim>\<open>x || y\<close> and \<^verbatim>\<open>if (x)\<close>.\<close>

fun truthy :: "jsval \<Rightarrow> bool" where
  "truthy Undefined = False"
| "truthy JNull = False"
| "truthy (JBool b) = b"
| "truthy (JNum n) = (n \<noteq> NaN \<and> n \<noteq> Fin 0)"
| "truthy (JStr s) = (s \<noteq> [])"
| "truthy (JArr xs) = True"
| "truthy (JObj kvs) = True"

section \<open>Failures\<close>

text \<open>
  What \<^verbatim>\<open>http.get\<close> resolves with: the response, of which the code reads
  \<^verbatim>\<open>status\<close> and \<^verbatim>\<open>data\<close>.
\<close>

record http_response =
  status :: int
  data :: jsval

text \<open>
  A thrown value, as far as \<^verbatim>\<open>mapUpstreamError\<close> inspects it: \<^verbatim>\<open>e.response\<close> (set by
  the HTTP client when the upstream answered with an error status), whether \<^verbatim>\<open>e.request\<close>
  is set (the request was sent), and the text \<^verbatim>\<open>String(e)\<close>.
\<close>

record js_error =
  response :: "http_response option"
  request :: bool
  str :: string

definition TypeError :: "string \<Rightarrow> js_error" where
  "TypeError msg = \<lparr>response = None, request = False, str = ''TypeError: '' @ msg\<rparr>"

subsection \<open>mapUpstreamError (server.js, lines 64-79)\<close>

definition mapUpstreamError :: "js_error \<Rightarrow> int \<times> jsval" where
  "mapUpstreamError e =
     (case response e of
        Some r \<Rightarrow>
          (status r,
           JObj [(''error'', JStr ''Upstream error''),
                 (''upstream_status'', JNum (Fin (of_int (status r)))),
                 (''upstream_body'', data r)])
      | None \<Rightarrow>
          if request e
          then (504, JObj [(''error'', JStr ''Upstream timeout/unreachable'')])
          else (500, JObj [(''error'', JStr ''Orchestrator error''), (''detail'', JStr (str e))]))"

section \<open>Language primitives used by the handlers\<close>

text \<open>
  Reading a property.  On \<^verbatim>\<open>null\<close> and \<^verbatim>\<open>undefined\<close> it throws a TypeError; on an
  object it yields the stored value or \<^verbatim>\<open>undefined\<close>.  The handlers read only
  \<^verbatim>\<open>detalle\<close>, \<^verbatim>\<open>id_receta\<close>, \<^verbatim>\<open>id_producto\<close>, \<^verbatim>\<open>cantidad\<close>, \<^verbatim>\<open>cantidad_actual\<close>,
  \<^verbatim>\<open>stock_actual\<close> and \<^verbatim>\<open>id_sucursal\<close>; no prototype defines any of these, so on a
  string, number, boolean or array the result is \<^verbatim>\<open>undefined\<close>.
\<close>

definition quoted :: "string \<Rightarrow> string" where
  "quoted k = CHR 0x27 # k @ [CHR 0x27]"

fun get_prop :: "jsval \<Rightarrow> string \<Rightarrow> js_error + jsval" where
  "get_prop Undefined k =
     Inl (TypeError (''Cannot read properties of undefined (reading '' @ quoted k @ '')''))"
| "get_prop JNull k =
     Inl (TypeError (''Cannot read properties of null (reading '' @ quoted k @ '')''))"
| "get_prop (JObj kvs) k = Inr (case map_of kvs k of None \<Rightarrow> Undefined | Some v \<Rightarrow> v)"
| "get_prop v k = Inr Undefined"

text \<open>\<^verbatim>\<open>l ?? r\<close>: the right operand is evaluated only when the left one is nullish.\<close>

definition nullish :: "jsval \<Rightarrow> bool" where
  "nullish v = (v = Undefined \<or> v = JNull)"

definition nullish_coalesce :: "js_error + jsval \<Rightarrow> js_error + jsval \<Rightarrow> js_error + jsval" where
  "nullish_coalesce l r =
     (case l of Inl e \<Rightarrow> Inl e | Inr v \<Rightarrow> if nullish v then r else Inr v)"

text \<open>\<^verbatim>\<open>x?.k\<close>\<close>

definition optional_chain :: "jsval \<Rightarrow> string \<Rightarrow> js_error + jsval" where
  "optional_chain v k = (if nullish v then Inr Undefined else get_prop v k)"

text \<open>\<^verbatim>\<open>(x || [])\<close>\<close>

definition or_empty :: "jsval \<Rightarrow> jsval" where
  "or_empty v = (if truthy v then v else JArr [])"

text \<open>
  Calling \<^verbatim>\<open>map\<close>, \<^verbatim>\<open>reduce\<close> or \<^verbatim>\<open>find\<close> on a value: only an array has these
  methods (a decoded JSON object holds no function), anything else throws; the message
  names the callee expression \<open>m\<close> as written in the source.
\<close>

definition array_method :: "string \<Rightarrow> jsval \<Rightarrow> js_error + jsval list" where
  "array_method m v =
     (case v of JArr xs \<Rightarrow> Inr xs | _ \<Rightarrow> Inl (TypeError (m @ '' is not a function'')))"

text \<open>
  The conversions of the language that the model does not spell out: the grammar of
  numeric strings, and the conversion of an array or object (through its string form,
  which throws for an object holding a \<^verbatim>\<open>toString\<close> entry).  Every theorem below holds
  for all such conversions.
\<close>

record builtins =
  StringToNumber :: "string \<Rightarrow> jsnum"
  ObjectToNumber :: "jsval \<Rightarrow> js_error + jsnum"

text \<open>\<^verbatim>\<open>Number(v)\<close>\<close>

fun Number :: "builtins \<Rightarrow> jsval \<Rightarrow> js_error + jsnum" where
  "Number B Undefined = Inr NaN"
| "Number B JNull = Inr (Fin 0)"
| "Number B (JBool b) = Inr (Fin (if b then 1 else 0))"
| "Number B (JNum n) = Inr n"
| "Number B (JStr s) = Inr (StringToNumber B s)"
| "Number B (JArr xs) = ObjectToNumber B (JArr xs)"
| "Number B (JObj kvs) = ObjectToNumber B (JObj kvs)"

section \<open>Upstream calls and promises\<close>

text \<open>
  The three upstream requests the handlers issue through \<^verbatim>\<open>http.get\<close>, identified by
  the values that go into the URL and the query parameters.
\<close>

datatype request =
    CatalogoProducto jsval
  | InventarioStock jsval jsval
  | RecetasReceta string

text \<open>
  A promise, once settled: the instant at which it settled and its outcome (\<open>Inl\<close> a
  rejection).  The upstream answers the \<open>n\<close>-th request a handler issues with a reply of
  its choice, so that two identical requests may be answered differently.
\<close>

type_synonym 'a promise = "nat \<times> (js_error + 'a)"

type_synonym upstream = "nat \<Rightarrow> request \<Rightarrow> http_response promise"

text \<open>
  \<^verbatim>\<open>http.get\<close>: the request is appended to the log of issued requests; its reply
  settles later than anything that happens before the handler first suspends.
\<close>

definition http_get ::
  "upstream \<Rightarrow> request list \<Rightarrow> request \<Rightarrow> request list \<times> http_response promise" where
  "http_get up calls req = (calls @ [req], case up (length calls) req of (t, r) \<Rightarrow> (Suc t, r))"

text \<open>\<^verbatim>\<open>.then((r) => r.data)\<close>\<close>

definition then_data :: "http_response promise \<Rightarrow> jsval promise" where
  "then_data p = (case p of (t, Inl e) \<Rightarrow> (t, Inl e) | (t, Inr r) \<Rightarrow> (t, Inr (data r)))"

text \<open>
  \<^verbatim>\<open>Promise.all\<close>: rejected with the rejection that settled first (the lower position on
  equal instants), otherwise fulfilled with all the values in the order of the promises.
\<close>

fun first_rejection :: "'a promise list \<Rightarrow> (nat \<times> js_error) option" where
  "first_rejection [] = None"
| "first_rejection ((t, Inr v) # ps) = first_rejection ps"
| "first_rejection ((t, Inl e) # ps) =
     (case first_rejection ps of
        None \<Rightarrow> Some (t, e)
      | Some (t', e') \<Rightarrow> if t' < t then Some (t', e') else Some (t, e))"

fun fulfilled :: "'a promise list \<Rightarrow> 'a list" where
  "fulfilled [] = []"
| "fulfilled ((t, Inr v) # ps) = v # fulfilled ps"
| "fulfilled ((t, Inl e) # ps) = fulfilled ps"

definition Promise_all :: "'a promise list \<Rightarrow> js_error + 'a list" where
  "Promise_all ps =
     (case first_rejection ps of Some (t, e) \<Rightarrow> Inl e | None \<Rightarrow> Inr (fulfilled ps))"

section \<open>GET /disponibilidad (server.js, lines 90-116)\<close>

text \<open>
  The \<^verbatim>\<open>.catch\<close> of the catalogue lookup: a rejection whose response has status 404
  becomes the value \<^verbatim>\<open>null\<close>; any other rejection is thrown again.
\<close>

definition catch_404 :: "jsval promise \<Rightarrow> jsval promise" where
  "catch_404 p =
     (case p of
        (t, Inr v) \<Rightarrow> (t, Inr v)
      | (t, Inl e) \<Rightarrow>
          (case response e of
             Some r \<Rightarrow> if status r = 404 then (t, Inr JNull) else (t, Inl e)
           | None \<Rightarrow> (t, Inl e)))"

text \<open>
  The body of the \<^verbatim>\<open>try\<close>: the log of the requests issued, and either the response
  sent or the value thrown.  The two query parameters are whatever the query string
  decoded to (\<^verbatim>\<open>undefined\<close> when absent).
\<close>

definition disponibilidad_try ::
  "upstream \<Rightarrow> jsval \<Rightarrow> jsval \<Rightarrow> request list \<times> (js_error + int \<times> jsval)" where
  "disponibilidad_try up q_id_producto q_distrito =
     (if \<not> truthy q_id_producto
      then ([], Inr (400, JObj [(''error'', JStr ''id_producto requerido'')]))
      else
        (case http_get up [] (CatalogoProducto q_id_producto) of (calls1, r1) \<Rightarrow>
         case http_get up calls1 (InventarioStock q_id_producto q_distrito) of (calls2, r2) \<Rightarrow>
           (calls2,
            case Promise_all [catch_404 (then_data r1), then_data r2] of
              Inl e \<Rightarrow> Inl e
            | Inr vs \<Rightarrow>
                Inr (200, JObj [(''producto'', vs ! 0), (''sucursales'', vs ! 1)]))))"

text \<open>The handler: what the \<^verbatim>\<open>try\<close> sent, or the mapped failure from the \<^verbatim>\<open>catch\<close>.\<close>

definition disponibilidad ::
  "upstream \<Rightarrow> jsval \<Rightarrow> jsval \<Rightarrow> request list \<times> (int \<times> jsval)" where
  "disponibilidad up q_id_producto q_distrito =
     (case disponibilidad_try up q_id_producto q_distrito of
        (calls, Inr res) \<Rightarrow> (calls, res)
      | (calls, Inl e) \<Rightarrow> (calls, mapUpstreamError e))"

section \<open>GET /recetas/:id_receta/validacion (server.js, lines 119-166)\<close>

text \<open>\<^verbatim>\<open>s.cantidad_actual ?? s.stock_actual ?? s.cantidad ?? 0\<close>\<close>

definition cantidadField :: "jsval \<Rightarrow> js_error + jsval" where
  "cantidadField s =
     nullish_coalesce
       (nullish_coalesce
          (nullish_coalesce (get_prop s ''cantidad_actual'') (get_prop s ''stock_actual''))
          (get_prop s ''cantidad''))
       (Inr (JNum (Fin 0)))"

text \<open>\<^verbatim>\<open>Number(cantidadField(s))\<close>, the coerced quantity of a stock entry.\<close>

definition cantidad_num :: "builtins \<Rightarrow> jsval \<Rightarrow> js_error + jsnum" where
  "cantidad_num B s = (case cantidadField s of Inl e \<Rightarrow> Inl e | Inr q \<Rightarrow> Number B q)"

text \<open>\<^verbatim>\<open>.reduce((acc, s) => acc + Number(cantidadField(s)), 0)\<close> on an array.\<close>

fun reduce :: "builtins \<Rightarrow> jsval list \<Rightarrow> jsnum \<Rightarrow> js_error + jsnum" where
  "reduce B [] acc = Inr acc"
| "reduce B (s # ss) acc =
     (case cantidad_num B s of Inl e \<Rightarrow> Inl e | Inr n \<Rightarrow> reduce B ss (js_add acc n))"

definition total_of :: "builtins \<Rightarrow> jsval \<Rightarrow> js_error + jsnum" where
  "total_of B stockList =
     (case array_method ''(stockList || []).reduce'' (or_empty stockList) of
        Inl e \<Rightarrow> Inl e
      | Inr ss \<Rightarrow> reduce B ss (Fin 0))"

text \<open>
  The entries a stock listing contributes: the elements of the array, none when the
  listing is falsy (\<^verbatim>\<open>(stockList || [])\<close>).  Used to state what \<open>total_of\<close> and
  \<open>sugerida\<close> range over.
\<close>

definition stock_entries :: "jsval \<Rightarrow> jsval list" where
  "stock_entries stockList = (case or_empty stockList of JArr ss \<Rightarrow> ss | _ \<Rightarrow> [])"

text \<open>
  \<^verbatim>\<open>.find((s) => Number(cantidadField(s)) >= Number(it.cantidad))\<close> on an array:
  the first entry that passes the test, \<^verbatim>\<open>undefined\<close> when none does.
\<close>

fun find_js :: "builtins \<Rightarrow> jsval \<Rightarrow> jsval list \<Rightarrow> js_error + jsval" where
  "find_js B it [] = Inr Undefined"
| "find_js B it (s # ss) =
     (case cantidad_num B s of
        Inl e \<Rightarrow> Inl e
      | Inr n \<Rightarrow>
          (case get_prop it ''cantidad'' of
             Inl e \<Rightarrow> Inl e
           | Inr c \<Rightarrow>
               (case Number B c of
                  Inl e \<Rightarrow> Inl e
                | Inr m \<Rightarrow> if js_ge n m then Inr s else find_js B it ss)))"

definition sugerida :: "builtins \<Rightarrow> jsval \<Rightarrow> jsval \<Rightarrow> js_error + jsval" where
  "sugerida B it stockList =
     (case array_method ''(stockList || []).find'' (or_empty stockList) of
        Inl e \<Rightarrow> Inl e
      | Inr ss \<Rightarrow>
          (case find_js B it ss of
             Inl e \<Rightarrow> Inl e
           | Inr found \<Rightarrow>
               nullish_coalesce (optional_chain found ''id_sucursal'') (Inr JNull)))"

record item =
  id_producto :: jsval
  solicitado :: jsnum
  disponible :: jsnum
  id_sucursal_sugerida :: jsval

text \<open>
  The mapper of one ingredient \<^verbatim>\<open>it\<close> after its \<^verbatim>\<open>await\<close>, given the decoded stock
  listing.
\<close>

definition item_of :: "builtins \<Rightarrow> jsval \<Rightarrow> jsval \<Rightarrow> js_error + item" where
  "item_of B it stockList =
     (case total_of B stockList of
        Inl e \<Rightarrow> Inl e
      | Inr tot \<Rightarrow>
          (case sugerida B it stockList of
             Inl e \<Rightarrow> Inl e
           | Inr sug \<Rightarrow>
               (case get_prop it ''id_producto'' of
                  Inl e \<Rightarrow> Inl e
                | Inr pid \<Rightarrow>
                    (case get_prop it ''cantidad'' of
                       Inl e \<Rightarrow> Inl e
                     | Inr c \<Rightarrow>
                         (case Number B c of
                            Inl e \<Rightarrow> Inl e
                          | Inr sol \<Rightarrow>
                              Inr \<lparr>id_producto = pid, solicitado = sol, disponible = tot,
                                   id_sucursal_sugerida = sug\<rparr>)))))"

text \<open>
  The whole mapper: reading \<^verbatim>\<open>it.id_producto\<close> for the query parameters throws before
  any request is issued when \<^verbatim>\<open>it\<close> is nullish, and the promise is rejected at once;
  otherwise the stock request is issued and the promise settles when its reply does.
\<close>

definition item_promise ::
  "builtins \<Rightarrow> upstream \<Rightarrow> request list \<Rightarrow> jsval \<Rightarrow> request list \<times> item promise" where
  "item_promise B up calls it =
     (case get_prop it ''id_producto'' of
        Inl e \<Rightarrow> (calls, (0, Inl e))
      | Inr pid \<Rightarrow>
          (case http_get up calls (InventarioStock pid Undefined) of
             (calls', p) \<Rightarrow>
               (case then_data p of
                  (t, Inl e) \<Rightarrow> (calls', (t, Inl e))
                | (t, Inr stockList) \<Rightarrow> (calls', (t, item_of B it stockList)))))"

text \<open>\<^verbatim>\<open>.map\<close> with the mapper: every mapper runs up to its \<^verbatim>\<open>await\<close>, in order.\<close>

fun map_items ::
  "builtins \<Rightarrow> upstream \<Rightarrow> request list \<Rightarrow> jsval list
     \<Rightarrow> request list \<times> item promise list" where
  "map_items B up calls [] = (calls, [])"
| "map_items B up calls (it # its) =
     (case item_promise B up calls it of (calls', p) \<Rightarrow>
      case map_items B up calls' its of (calls'', ps) \<Rightarrow> (calls'', p # ps))"

text \<open>\<^verbatim>\<open>items.every((i) => i.disponible >= i.solicitado)\<close>\<close>

definition ok :: "item list \<Rightarrow> bool" where
  "ok its = list_all (\<lambda>i. js_ge (disponible i) (solicitado i)) its"

text \<open>\<^verbatim>\<open>!ok && items.some((i) => i.disponible > 0)\<close>\<close>

definition parcial :: "item list \<Rightarrow> bool" where
  "parcial its = (\<not> ok its \<and> list_ex (\<lambda>i. js_gt (disponible i) (Fin 0)) its)"

record validation =
  id_receta :: jsval
  estado_sugerido :: string
  items :: "item list"

text \<open>The body of the \<^verbatim>\<open>try\<close>: the requests issued and the object sent, or the value thrown.\<close>

definition validacion_try ::
  "builtins \<Rightarrow> upstream \<Rightarrow> string \<Rightarrow> request list \<times> (js_error + validation)" where
  "validacion_try B up ident =
     (case http_get up [] (RecetasReceta ident) of (calls, p) \<Rightarrow>
      (case then_data p of
        (t, Inl e) \<Rightarrow> (calls, Inl e)
      | (t, Inr receta) \<Rightarrow>
          (case get_prop receta ''detalle'' of
             Inl e \<Rightarrow> (calls, Inl e)
           | Inr detalle \<Rightarrow>
               (case array_method ''(receta.detalle || []).map'' (or_empty detalle) of
                  Inl e \<Rightarrow> (calls, Inl e)
                | Inr its \<Rightarrow>
                    (case map_items B up calls its of (calls', ps) \<Rightarrow>
                       (calls',
                        case Promise_all ps of
                          Inl e \<Rightarrow> Inl e
                        | Inr rs \<Rightarrow>
                            (case get_prop receta ''id_receta'' of
                               Inl e \<Rightarrow> Inl e
                             | Inr rid \<Rightarrow>
                                 Inr \<lparr>id_receta = rid,
                                      estado_sugerido =
                                        (if ok rs then ''VALIDADA''
                                         else if parcial rs then ''PARCIAL''
                                         else ''RECHAZADA''),
                                      items = rs\<rparr>)))))))"

text \<open>The objects handed to \<^verbatim>\<open>res.json\<close>.\<close>

definition item_json :: "item \<Rightarrow> jsval" where
  "item_json i =
     JObj [(''id_producto'', id_producto i),
           (''solicitado'', JNum (solicitado i)),
           (''disponible'', JNum (disponible i)),
           (''id_sucursal_sugerida'', id_sucursal_sugerida i)]"

definition validation_json :: "validation \<Rightarrow> jsval" where
  "validation_json v =
     JObj [(''id_receta'', id_receta v),
           (''estado_sugerido'', JStr (estado_sugerido v)),
           (''items'', JArr (map item_json (items v)))]"

text \<open>The handler: status 200 with the object, or the mapped failure from the \<^verbatim>\<open>catch\<close>.\<close>

definition validacion ::
  "builtins \<Rightarrow> upstream \<Rightarrow> string \<Rightarrow> request list \<times> (int \<times> jsval)" where
  "validacion B up ident =
     (case validacion_try B up ident of
        (calls, Inr v) \<Rightarrow> (calls, (200, validation_json v))
      | (calls, Inl e) \<Rightarrow> (calls, mapUpstreamError e))"

section \<open>Example data\<close>

text \<open>
  Conversions for the examples, whose inputs hold no numeric strings and no nested
  quantity values: both conversions answer NaN.
\<close>

definition conversions0 :: builtins where
  "conversions0 = \<lparr>StringToNumber = (\<lambda>s. NaN), ObjectToNumber = (\<lambda>v. Inr NaN)\<rparr>"

text \<open>The two kinds of rejection of the HTTP client.\<close>

definition http_error :: "int \<Rightarrow> jsval \<Rightarrow> js_error" where
  "http_error st body =
     \<lparr>response = Some \<lparr>status = st, data = body\<rparr>, request = True,
      str = ''AxiosError: Request failed''\<rparr>"

definition no_response :: js_error where
  "no_response = \<lparr>response = None, request = True, str = ''AxiosError: timeout exceeded''\<rparr>"

text \<open>
  An upstream given by the reply of the catalogue, the reply of the inventory for each
  product id, and the reply of the recipes service.
\<close>

definition upstream_of ::
  "http_response promise \<Rightarrow> (jsval \<Rightarrow> http_response promise) \<Rightarrow> http_response promise
     \<Rightarrow> upstream" where
  "upstream_of catalogo inventario recetas n req =
     (case req of
        CatalogoProducto p \<Rightarrow> catalogo
      | InventarioStock p d \<Rightarrow> inventario p
      | RecetasReceta i \<Rightarrow> recetas)"

text \<open>
  The recipe of the specification's worked example: ingredients A (5 units) and B
  (3 units); stock of A is 2 in S1 and 10 in S2, stock of B is 1 in S1; the catalogue
  knows neither product.
\<close>

definition receta_AB :: jsval where
  "receta_AB =
     JObj [(''id_receta'', JStr ''r1''),
           (''detalle'',
            JArr [JObj [(''id_producto'', JStr ''A''), (''cantidad'', JNum (Fin 5))],
                  JObj [(''id_producto'', JStr ''B''), (''cantidad'', JNum (Fin 3))]])]"

definition stock_A :: jsval where
  "stock_A =
     JArr [JObj [(''id_sucursal'', JStr ''S1''), (''cantidad'', JNum (Fin 2))],
           JObj [(''id_sucursal'', JStr ''S2''), (''stock_actual'', JNum (Fin 10))]]"

definition stock_B :: jsval where
  "stock_B = JArr [JObj [(''id_sucursal'', JStr ''S1''), (''cantidad_actual'', JNum (Fin 1))]]"

definition upstream_AB :: upstream where
  "upstream_AB =
     upstream_of
       (1, Inl (http_error 404 (JObj [(''detail'', JStr ''Not found'')])))
       (\<lambda>p. if p = JStr ''A'' then (3, Inr \<lparr>status = 200, data = stock_A\<rparr>)
            else (2, Inr \<lparr>status = 200, data = stock_B\<rparr>))
       (1, Inr \<lparr>status = 200, data = receta_AB\<rparr>)"

text \<open>
  The ingredients of that recipe, and two more upstreams for it: one where every branch
  reports a quantity of 0, one where a branch holds 50 of each product.
\<close>

definition detalle_AB :: "jsval list" where
  "detalle_AB =
     [JObj [(''id_producto'', JStr ''A''), (''cantidad'', JNum (Fin 5))],
      JObj [(''id_producto'', JStr ''B''), (''cantidad'', JNum (Fin 3))]]"

definition upstream_sin_stock :: upstream where
  "upstream_sin_stock =
     upstream_of
       (1, Inl (http_error 404 (JObj [(''detail'', JStr ''Not found'')])))
       (\<lambda>p. (2, Inr \<lparr>status = 200,
                      data = JArr [JObj [(''id_sucursal'', JStr ''S1''),
                                         (''cantidad_actual'', JNum (Fin 0))]]\<rparr>))
       (1, Inr \<lparr>status = 200, data = receta_AB\<rparr>)"

definition upstream_con_stock :: upstream where
  "upstream_con_stock =
     upstream_of
       (1, Inl (http_error 404 (JObj [(''detail'', JStr ''Not found'')])))
       (\<lambda>p. (2, Inr \<lparr>status = 200,
                      data = JArr [JObj [(''id_sucursal'', JStr ''S1''),
                                         (''cantidad_actual'', JNum (Fin 50))]]\<rparr>))
       (1, Inr \<lparr>status = 200, data = receta_AB\<rparr>)"

text \<open>The two items of the worked example.\<close>

definition item_A :: item where
  "item_A = \<lparr>id_producto = JStr ''A'', solicitado = Fin 5, disponible = Fin 12,
              id_sucursal_sugerida = JStr ''S2''\<rparr>"

definition item_B :: item where
  "item_B = \<lparr>id_producto = JStr ''B'', solicitado = Fin 3, disponible = Fin 1,
              id_sucursal_sugerida = JNull\<rparr>"

section \<open>Facts about number arithmetic\<close>

text \<open>\<open>ilog2\<close> brackets its argument between two consecutive powers of two.\<close>

lemma ilog2_bounds:
  assumes "0 < a"
  shows "2 powi (ilog2 a) \<le> a \<and> a < 2 powi (ilog2 a + 1)"
proof -
  obtain p q where pq: "quotient_of a = (p, q)" by (cases "quotient_of a")
  then have q: "0 < q" and a: "a = of_int p / of_int q"
    by (simp_all add: quotient_of_denom_pos quotient_of_div)
  from assms a q have p: "0 < p" by (simp add: zero_less_divide_iff)
  from bitlen_bounds [OF p] have bp: "2 ^ nat (bitlen p - 1) \<le> p" "p < 2 ^ nat (bitlen p)"
    by simp_all
  from bitlen_bounds [OF q] have bq: "2 ^ nat (bitlen q - 1) \<le> q" "q < 2 ^ nat (bitlen q)"
    by simp_all
  have pos: "0 < bitlen p" "0 < bitlen q"
    using p q bitlen_nonneg [of p] bitlen_nonneg [of q] bitlen_eq_zero_iff [of p]
      bitlen_eq_zero_iff [of q]
    by linarith+
  let ?d = "bitlen p - bitlen q"
  have P1: "(2::rat) powi (bitlen p - 1) \<le> of_int p"
  proof -
    have "(2::rat) powi (bitlen p - 1) = 2 ^ nat (bitlen p - 1)"
      using pos by (simp add: power_int_def)
    also have "\<dots> = of_int (2 ^ nat (bitlen p - 1))" by simp
    also have "\<dots> \<le> of_int p" using bp(1) by (simp only: of_int_le_iff)
    finally show ?thesis .
  qed
  have P2: "of_int p < (2::rat) powi (bitlen p)"
  proof -
    have "(of_int p :: rat) < of_int (2 ^ nat (bitlen p))"
      using bp(2) by (simp only: of_int_less_iff)
    also have "\<dots> = 2 powi (bitlen p)" using pos by (simp add: power_int_def)
    finally show ?thesis .
  qed
  have Q1: "(2::rat) powi (bitlen q - 1) \<le> of_int q"
  proof -
    have "(2::rat) powi (bitlen q - 1) = 2 ^ nat (bitlen q - 1)"
      using pos by (simp add: power_int_def)
    also have "\<dots> = of_int (2 ^ nat (bitlen q - 1))" by simp
    also have "\<dots> \<le> of_int q" using bq(1) by (simp only: of_int_le_iff)
    finally show ?thesis .
  qed
  have Q2: "of_int q < (2::rat) powi (bitlen q)"
  proof -
    have "(of_int q :: rat) < of_int (2 ^ nat (bitlen q))"
      using bq(2) by (simp only: of_int_less_iff)
    also have "\<dots> = 2 powi (bitlen q)" using pos by (simp add: power_int_def)
    finally show ?thesis .
  qed
  have qr: "(0::rat) < of_int q" using q by simp
  have up: "a < 2 powi (?d + 1)"
  proof -
    have "2 powi (?d + 1) * (2::rat) powi (bitlen q - 1) = 2 powi (bitlen p)"
      by (simp add: power_int_add [symmetric])
    then have "of_int p < 2 powi (?d + 1) * (2::rat) powi (bitlen q - 1)" using P2 by simp
    also have "\<dots> \<le> 2 powi (?d + 1) * of_int q"
      using Q1 by (intro mult_left_mono) simp_all
    finally show ?thesis using qr a by (simp add: pos_divide_less_eq)
  qed
  have lo: "2 powi (?d - 1) \<le> a"
  proof -
    have "2 powi (?d - 1) * of_int q \<le> 2 powi (?d - 1) * (2::rat) powi (bitlen q)"
      using Q2 by (intro mult_left_mono) simp_all
    also have "\<dots> = 2 powi (bitlen p - 1)" by (simp add: power_int_add [symmetric])
    also have "\<dots> \<le> of_int p" by (rule P1)
    finally show ?thesis using qr a by (simp add: pos_le_divide_eq)
  qed
  show ?thesis
    using up lo pq by (auto simp: ilog2_def Let_def)
qed

lemma round_half_even_nonneg: "0 \<le> x \<Longrightarrow> 0 \<le> round_half_even x"
  by (auto simp: round_half_even_def Let_def)

lemma round_half_even_of_int: "round_half_even (of_int k) = k"
  by (simp add: round_half_even_def)

lemma round_half_even_ge_floor: "\<lfloor>x\<rfloor> \<le> round_half_even x"
  by (simp add: round_half_even_def Let_def)

text \<open>Rounding keeps the sign: a value that is not negative rounds to one that is not.\<close>

lemma round64_nonneg: "0 \<le> x \<Longrightarrow> js_ge (round64 x) (Fin 0)"
  by (auto simp: round64_def Let_def round_half_even_nonneg)

lemma round64_minus:
  "round64 (- x) =
     (case round64 x of Fin v \<Rightarrow> Fin (- v) | PosInf \<Rightarrow> NegInf | NegInf \<Rightarrow> PosInf | NaN \<Rightarrow> NaN)"
  by (cases "x = 0"; cases "x < 0") (auto simp: round64_def Let_def)

text \<open>Every integer below \<open>2^53\<close> in absolute value is a double: rounding leaves it as it is.\<close>

lemma round64_pos_int:
  assumes m: "0 < m" "m < 2 ^ 53"
  shows "round64 (of_int m) = Fin (of_int m)"
proof -
  let ?a = "of_int m :: rat"
  let ?L = "ilog2 ?a"
  have a0: "0 < ?a" using m by simp
  from ilog2_bounds [OF a0] have lo: "2 powi ?L \<le> ?a" and hi: "?a < 2 powi (?L + 1)"
    by simp_all
  have L0: "0 \<le> ?L"
  proof (rule ccontr)
    assume "\<not> 0 \<le> ?L"
    then have "?L + 1 \<le> 0" by simp
    then have "(2::rat) powi (?L + 1) \<le> 2 powi 0" by (intro power_int_increasing) simp_all
    with hi have "?a < 1" by simp
    with m show False by simp
  qed
  have L52: "?L \<le> 52"
  proof (rule ccontr)
    assume "\<not> ?L \<le> 52"
    then have "53 \<le> ?L" by simp
    then have "(2::rat) powi 53 \<le> 2 powi ?L" by (intro power_int_increasing) simp_all
    with lo have "(2::rat) powi 53 \<le> ?a" by simp
    moreover have "?a < of_int (2 ^ 53)" using m(2) by (simp only: of_int_less_iff)
    ultimately show False by simp
  qed
  have e: "max (?L - 52) (- 1074) = ?L - 52" using L0 by simp
  have p: "(2::rat) powi (?L - 52) = 1 / 2 ^ nat (52 - ?L)"
    using L52 by (simp add: power_int_def field_simps)
  have q: "?a / 2 powi (?L - 52) = of_int (m * 2 ^ nat (52 - ?L))"
    by (simp add: p)
  have v: "of_int (round_half_even (?a / 2 powi (?L - 52))) * (2::rat) powi (?L - 52) = ?a"
    by (simp only: q round_half_even_of_int) (simp add: p)
  have "?a < of_int (2 ^ 53)" using m(2) by (simp only: of_int_less_iff)
  also have "\<dots> \<le> (2::rat) powi 1024" by simp
  finally have small: "\<not> 2 powi 1024 \<le> ?a" by simp
  show ?thesis
    using a0 small by (simp add: round64_def Let_def e v del: of_int_less_iff)
qed

lemma round64_int_exact:
  assumes "\<bar>n\<bar> < 2 ^ 53"
  shows "round64 (of_int n) = Fin (of_int n)"
proof (cases n "0::int" rule: linorder_cases)
  case equal
  then show ?thesis by (simp add: round64_def)
next
  case greater
  with assms show ?thesis by (simp add: round64_pos_int)
next
  case less
  with assms have "round64 (of_int (- n)) = Fin (of_int (- n))"
    by (intro round64_pos_int) simp_all
  then show ?thesis using round64_minus [of "of_int (- n)"] by simp
qed

lemma round64_zero: "round64 0 = Fin 0"
  by (simp add: round64_def)

lemma round64_one: "round64 1 = Fin 1"
  using round64_int_exact [of 1] by simp

lemma round64_numeral:
  "(numeral k :: int) < 2 ^ 53 \<Longrightarrow> round64 (numeral k) = Fin (numeral k)"
  using round64_int_exact [of "numeral k"] by simp

lemma round64_neg_numeral:
  "(numeral k :: int) < 2 ^ 53 \<Longrightarrow> round64 (- numeral k) = Fin (- numeral k)"
  using round64_int_exact [of "- numeral k"] by simp

lemmas round64_eval = round64_zero round64_one round64_numeral round64_neg_numeral

text \<open>A value of \<open>2^1024\<close> or more overflows to Infinity.\<close>

lemma round64_overflow:
  assumes "2 powi 1024 \<le> x"
  shows "round64 x = PosInf"
proof -
  let ?L = "ilog2 x"
  let ?e = "?L - 52"
  have x0: "0 < x"
  proof -
    have "(0::rat) < 2 powi 1024" by simp
    with assms show ?thesis by linarith
  qed
  from ilog2_bounds [OF x0] have lo: "2 powi ?L \<le> x" and hi: "x < 2 powi (?L + 1)"
    by simp_all
  have L: "1024 \<le> ?L"
  proof (rule ccontr)
    assume "\<not> 1024 \<le> ?L"
    then have "?L + 1 \<le> 1024" by simp
    then have "(2::rat) powi (?L + 1) \<le> 2 powi 1024" by (intro power_int_increasing) simp_all
    with hi assms show False by linarith
  qed
  then have e: "max (?L - 52) (- 1074) = ?e" by simp
  have pe: "(0::rat) < 2 powi ?e" by simp
  define c :: rat where "c = 2 powi 52"
  have c: "c = of_int (2 ^ 52)" by (simp add: c_def)
  have "(2::rat) powi (52 + ?e) = 2 powi 52 * 2 powi ?e" by (rule power_int_add) simp
  then have split: "(2::rat) powi ?L = c * 2 powi ?e" by (simp add: c_def)
  with lo have "c * 2 powi ?e \<le> x" by simp
  then have "c \<le> x / 2 powi ?e" using pe by (simp add: pos_le_divide_eq)
  then have "of_int (2 ^ 52) \<le> x / 2 powi ?e" by (simp only: c)
  then have "2 ^ 52 \<le> \<lfloor>x / 2 powi ?e\<rfloor>" by (simp only: le_floor_iff)
  with round_half_even_ge_floor [of "x / 2 powi ?e"]
  have "2 ^ 52 \<le> round_half_even (x / 2 powi ?e)" by linarith
  then have "(of_int (2 ^ 52) :: rat) \<le> of_int (round_half_even (x / 2 powi ?e))"
    by (simp only: of_int_le_iff)
  then have "c \<le> of_int (round_half_even (x / 2 powi ?e))" by (simp only: c)
  then have "c * 2 powi ?e \<le> of_int (round_half_even (x / 2 powi ?e)) * 2 powi ?e"
    using pe by (intro mult_right_mono) simp_all
  then have "(2::rat) powi ?L \<le> of_int (round_half_even (x / 2 powi ?e)) * 2 powi ?e"
    by (simp only: split)
  moreover have "(2::rat) powi 1024 \<le> 2 powi ?L" using L by (intro power_int_increasing) simp_all
  ultimately have "(2::rat) powi 1024 \<le> of_int (round_half_even (x / 2 powi ?e)) * 2 powi ?e"
    by linarith
  with x0 e show ?thesis by (simp add: round64_def Let_def)
qed

text \<open>
  Three sums of doubles: \<open>2^53 + 1\<close> is rounded to \<open>2^53\<close>; the largest double added to
  itself overflows; and the sum of the doubles nearest to 0.1 and 0.7 is a double below
  the one nearest to 0.8.
\<close>

lemma js_add_rounds: "js_add (Fin (2 ^ 53)) (Fin 1) = Fin (2 ^ 53)"
  by code_simp

lemma js_add_overflows:
  "js_add (Fin ((2 ^ 53 - 1) * 2 ^ 971)) (Fin ((2 ^ 53 - 1) * 2 ^ 971)) = PosInf"
  by (simp add: round64_overflow)

lemma js_add_tenths:
  "js_add (Fin (3602879701896397 / 2 ^ 55)) (Fin (3152519739159347 / 2 ^ 52))
     = Fin (7205759403792793 / 2 ^ 53)
   \<and> (7205759403792793 / 2 ^ 53 :: rat) < 3602879701896397 / 2 ^ 52"
  by code_simp

text \<open>
  The total of a listing whose two entries hold \<open>2^53\<close> and 1 is \<open>2^53\<close>, not
  \<open>2^53 + 1\<close>.
\<close>

lemma total_of_rounds:
  "total_of B (JArr [JObj [(''cantidad_actual'', JNum (Fin (2 ^ 53)))],
                     JObj [(''cantidad_actual'', JNum (Fin 1))]]) = Inr (Fin (2 ^ 53))"
  by code_simp

text \<open>
  Non-negative integers whose total stays below \<open>2^53\<close> are summed exactly.
\<close>

lemma foldl_js_add_ints:
  "0 \<le> a \<Longrightarrow> \<forall>n\<in>set ns. 0 \<le> n \<Longrightarrow> a + sum_list ns < 2 ^ 53 \<Longrightarrow>
     foldl js_add (Fin (of_int a)) (map (\<lambda>n. Fin (of_int n)) ns) = Fin (of_int (a + sum_list ns))"
proof (induction ns arbitrary: a)
  case Nil
  then show ?case by simp
next
  case (Cons n ns)
  have s: "0 \<le> sum_list ns" using Cons.prems(2) by (simp add: sum_list_nonneg)
  have n: "0 \<le> n" using Cons.prems(2) by simp
  have "\<bar>a + n\<bar> < 2 ^ 53" using Cons.prems s n by simp
  then have "js_add (Fin (of_int a)) (Fin (of_int n)) = Fin (of_int (a + n))"
    using round64_int_exact [of "a + n"] by simp
  moreover have "foldl js_add (Fin (of_int (a + n))) (map (\<lambda>n. Fin (of_int n)) ns)
      = Fin (of_int ((a + n) + sum_list ns))"
    using Cons.prems n by (intro Cons.IH) (simp_all add: add.assoc)
  ultimately show ?case by (simp add: add.assoc)
qed

section \<open>The error mapper\<close>

text \<open>
  C6.  The error mapper is a function of the failure alone.  A failure that carries an
  upstream response maps to that response's status, with body
  \<^verbatim>\<open>{error: "Upstream error", upstream_status, upstream_body}\<close>; a failure with no response
  but a sent request maps to 504 with \<^verbatim>\<open>{error: "Upstream timeout/unreachable"}\<close>; every
  other failure maps to 500 with \<^verbatim>\<open>{error: "Orchestrator error", detail: String(e)}\<close>.
\<close>

theorem mapUpstreamError_cases:
  "(response e = Some r \<longrightarrow>
      mapUpstreamError e =
        (status r,
         JObj [(''error'', JStr ''Upstream error''),
               (''upstream_status'', JNum (Fin (of_int (status r)))),
               (''upstream_body'', data r)]))
   \<and> (response e = None \<and> request e \<longrightarrow>
      mapUpstreamError e = (504, JObj [(''error'', JStr ''Upstream timeout/unreachable'')]))
   \<and> (response e = None \<and> \<not> request e \<longrightarrow>
      mapUpstreamError e =
        (500, JObj [(''error'', JStr ''Orchestrator error''), (''detail'', JStr (str e))]))"
  by (simp add: mapUpstreamError_def)

theorem mapUpstreamError_cases_witness:
  "mapUpstreamError (http_error 404 (JStr ''no existe'')) =
     (404, JObj [(''error'', JStr ''Upstream error''),
                 (''upstream_status'', JNum (Fin 404)),
                 (''upstream_body'', JStr ''no existe'')])
   \<and> mapUpstreamError no_response =
     (504, JObj [(''error'', JStr ''Upstream timeout/unreachable'')])
   \<and> mapUpstreamError (TypeError ''x.map is not a function'') =
     (500, JObj [(''error'', JStr ''Orchestrator error''),
                 (''detail'', JStr ''TypeError: x.map is not a function'')])"
  using
    mapUpstreamError_cases [of "http_error 404 (JStr ''no existe'')"
      "\<lparr>status = 404, data = JStr ''no existe''\<rparr>"]
    mapUpstreamError_cases [of no_response]
    mapUpstreamError_cases [of "TypeError ''x.map is not a function''"]
  by (simp add: http_error_def no_response_def TypeError_def)

section \<open>Availability\<close>

text \<open>
  C8.  A request whose \<^verbatim>\<open>id_producto\<close> is empty (the empty string, or absent) is
  answered with status 400 and \<^verbatim>\<open>{error: "id_producto requerido"}\<close>, the handler's
  invalid-argument response, and the log of upstream requests is empty: neither the
  catalogue nor the inventory is called.
\<close>

theorem disponibilidad_sin_id:
  "\<not> truthy q \<Longrightarrow>
     disponibilidad up q d = ([], (400, JObj [(''error'', JStr ''id_producto requerido'')]))"
  by (simp add: disponibilidad_def disponibilidad_try_def)

theorem disponibilidad_sin_id_witness:
  "\<not> truthy (JStr [])
   \<and> disponibilidad upstream_AB (JStr []) (JStr ''Lima'') =
       ([], (400, JObj [(''error'', JStr ''id_producto requerido'')]))
   \<and> disponibilidad upstream_AB Undefined Undefined =
       ([], (400, JObj [(''error'', JStr ''id_producto requerido'')]))"
  using disponibilidad_sin_id [of "JStr []" upstream_AB "JStr ''Lima''"]
    disponibilidad_sin_id [of Undefined upstream_AB Undefined]
  by simp

text \<open>
  C4.  When the catalogue lookup is rejected with an upstream response of status 404 and
  the inventory lookup is fulfilled, the handler answers 200 with \<^verbatim>\<open>producto\<close> null and
  \<^verbatim>\<open>sucursales\<close> the decoded inventory payload itself, whatever that payload is.
\<close>

theorem disponibilidad_404:
  assumes "truthy q"
    and "up 0 (CatalogoProducto q) = (t1, Inl e)"
    and "response e = Some r" and "status r = 404"
    and "up 1 (InventarioStock q d) = (t2, Inr s)"
  shows "disponibilidad up q d =
           ([CatalogoProducto q, InventarioStock q d],
            (200, JObj [(''producto'', JNull), (''sucursales'', data s)]))"
  using assms
  by (simp add: disponibilidad_def disponibilidad_try_def http_get_def then_data_def
      catch_404_def Promise_all_def)

theorem disponibilidad_404_witness:
  "disponibilidad upstream_AB (JStr ''A'') (JStr ''Lima'') =
     ([CatalogoProducto (JStr ''A''), InventarioStock (JStr ''A'') (JStr ''Lima'')],
      (200, JObj [(''producto'', JNull), (''sucursales'', stock_A)]))"
  using disponibilidad_404 [of "JStr ''A''" upstream_AB 1
      "http_error 404 (JObj [(''detail'', JStr ''Not found'')])"
      "\<lparr>status = 404, data = JObj [(''detail'', JStr ''Not found'')]\<rparr>"
      "JStr ''Lima''" 3 "\<lparr>status = 200, data = stock_A\<rparr>"]
  by (simp add: upstream_AB_def upstream_of_def http_error_def)

text \<open>
  C7, as the claim states it, fails: when both lookups are rejected and the catalogue's
  rejection (not a 404) settles first, \<^verbatim>\<open>Promise.all\<close> is rejected with the catalogue's
  failure, and the response carries the catalogue's status and body, not the
  inventory's.  Here the catalogue answers 500 at instant 1 and the inventory 503 at
  instant 2.
\<close>

theorem disponibilidad_inventario_falla_counterexample:
  "upstream_of (1, Inl (http_error 500 (JStr ''catalogo'')))
       (\<lambda>p. (2, Inl (http_error 503 (JStr ''inventario'')))) (0, Inl no_response)
       1 (InventarioStock (JStr ''A'') Undefined)
     = (2, Inl (http_error 503 (JStr ''inventario'')))
   \<and> snd (disponibilidad
         (upstream_of (1, Inl (http_error 500 (JStr ''catalogo'')))
            (\<lambda>p. (2, Inl (http_error 503 (JStr ''inventario'')))) (0, Inl no_response))
         (JStr ''A'') Undefined)
     = (500, JObj [(''error'', JStr ''Upstream error''),
                   (''upstream_status'', JNum (Fin 500)),
                   (''upstream_body'', JStr ''catalogo'')])
   \<and> snd (disponibilidad
         (upstream_of (1, Inl (http_error 500 (JStr ''catalogo'')))
            (\<lambda>p. (2, Inl (http_error 503 (JStr ''inventario'')))) (0, Inl no_response))
         (JStr ''A'') Undefined)
     \<noteq> mapUpstreamError (http_error 503 (JStr ''inventario''))"
  by (simp add: disponibilidad_def disponibilidad_try_def http_get_def then_data_def
      catch_404_def Promise_all_def mapUpstreamError_def upstream_of_def http_error_def)

text \<open>
  C7, amended.  When the inventory lookup is rejected with an upstream response whose
  status is not 404, and the catalogue lookup is fulfilled, or is rejected with a 404, or
  settles later than the inventory lookup, the handler answers with the inventory's
  failure mapped: the upstream status, and the upstream status and body in the body.
  When the catalogue lookup is rejected with a failure other than a 404, and the
  inventory lookup is fulfilled or settles later than the catalogue's, the handler
  answers with the catalogue's failure mapped.
\<close>

theorem disponibilidad_inventario_falla:
  "(truthy q
      \<and> up 1 (InventarioStock q d) = (t2, Inl e2)
      \<and> response e2 = Some r2 \<and> status r2 \<noteq> 404
      \<and> up 0 (CatalogoProducto q) = (t1, c1)
      \<and> ((\<exists>s. c1 = Inr s)
         \<or> (\<exists>e r. c1 = Inl e \<and> response e = Some r \<and> status r = 404)
         \<or> t2 < t1) \<longrightarrow>
    snd (disponibilidad up q d) =
      (status r2,
       JObj [(''error'', JStr ''Upstream error''),
             (''upstream_status'', JNum (Fin (of_int (status r2)))),
             (''upstream_body'', data r2)]))
   \<and> (truthy q
      \<and> up 0 (CatalogoProducto q) = (t1, Inl e1)
      \<and> (\<forall>r. response e1 = Some r \<longrightarrow> status r \<noteq> 404)
      \<and> up 1 (InventarioStock q d) = (t2, c2)
      \<and> ((\<exists>s. c2 = Inr s) \<or> t1 < t2) \<longrightarrow>
    snd (disponibilidad up q d) = mapUpstreamError e1)"
proof (intro conjI impI)
  assume "truthy q
      \<and> up 1 (InventarioStock q d) = (t2, Inl e2)
      \<and> response e2 = Some r2 \<and> status r2 \<noteq> 404
      \<and> up 0 (CatalogoProducto q) = (t1, c1)
      \<and> ((\<exists>s. c1 = Inr s)
         \<or> (\<exists>e r. c1 = Inl e \<and> response e = Some r \<and> status r = 404)
         \<or> t2 < t1)"
  then show "snd (disponibilidad up q d) =
      (status r2,
       JObj [(''error'', JStr ''Upstream error''),
             (''upstream_status'', JNum (Fin (of_int (status r2)))),
             (''upstream_body'', data r2)])"
    by (auto simp add: disponibilidad_def disponibilidad_try_def http_get_def then_data_def
        catch_404_def Promise_all_def mapUpstreamError_def split: sum.splits option.splits)
next
  assume "truthy q
      \<and> up 0 (CatalogoProducto q) = (t1, Inl e1)
      \<and> (\<forall>r. response e1 = Some r \<longrightarrow> status r \<noteq> 404)
      \<and> up 1 (InventarioStock q d) = (t2, c2)
      \<and> ((\<exists>s. c2 = Inr s) \<or> t1 < t2)"
  then show "snd (disponibilidad up q d) = mapUpstreamError e1"
    by (auto simp add: disponibilidad_def disponibilidad_try_def http_get_def then_data_def
        catch_404_def Promise_all_def split: sum.splits option.splits)
qed

theorem disponibilidad_inventario_falla_witness:
  "snd (disponibilidad
         (upstream_of (5, Inl (http_error 500 (JStr ''catalogo'')))
            (\<lambda>p. (2, Inl (http_error 503 (JStr ''inventario'')))) (0, Inl no_response))
         (JStr ''A'') Undefined)
     = (503, JObj [(''error'', JStr ''Upstream error''),
                   (''upstream_status'', JNum (Fin 503)),
                   (''upstream_body'', JStr ''inventario'')])
   \<and> snd (disponibilidad
         (upstream_of (1, Inl (http_error 502 (JStr ''catalogo'')))
            (\<lambda>p. (2, Inl (http_error 503 (JStr ''inventario'')))) (0, Inl no_response))
         (JStr ''A'') Undefined)
     = mapUpstreamError (http_error 502 (JStr ''catalogo''))
   \<and> snd (disponibilidad
         (upstream_of (7, Inl no_response)
            (\<lambda>p. (2, Inr \<lparr>status = 200, data = stock_A\<rparr>)) (0, Inl no_response))
         (JStr ''A'') Undefined)
     = mapUpstreamError no_response"
  using disponibilidad_inventario_falla [of "JStr ''A''"
      "upstream_of (5, Inl (http_error 500 (JStr ''catalogo'')))
         (\<lambda>p. (2, Inl (http_error 503 (JStr ''inventario'')))) (0, Inl no_response)"
      Undefined 2 "http_error 503 (JStr ''inventario'')"
      "\<lparr>status = 503, data = JStr ''inventario''\<rparr>"
      5 "Inl (http_error 500 (JStr ''catalogo''))"]
    disponibilidad_inventario_falla [of "JStr ''A''"
      "upstream_of (1, Inl (http_error 502 (JStr ''catalogo'')))
         (\<lambda>p. (2, Inl (http_error 503 (JStr ''inventario'')))) (0, Inl no_response)"
      Undefined 2 _ _ 1 _ "http_error 502 (JStr ''catalogo'')"
      "Inl (http_error 503 (JStr ''inventario''))"]
    disponibilidad_inventario_falla [of "JStr ''A''"
      "upstream_of (7, Inl no_response)
         (\<lambda>p. (2, Inr \<lparr>status = 200, data = stock_A\<rparr>)) (0, Inl no_response)"
      Undefined 2 _ _ 7 _ no_response "Inr \<lparr>status = 200, data = stock_A\<rparr>"]
  by (simp add: upstream_of_def http_error_def no_response_def)

section \<open>Recipe validation: auxiliary facts\<close>

lemma array_method_Inr: "array_method m v = Inr xs \<Longrightarrow> v = JArr xs"
  by (cases v) (simp_all add: array_method_def)

lemma array_method_entries:
  "array_method m (or_empty stockList) = Inr ss \<Longrightarrow> stock_entries stockList = ss"
  by (drule array_method_Inr) (simp add: stock_entries_def)

lemma reduce_Inr:
  "reduce B ss acc = Inr tot \<Longrightarrow>
     \<exists>qs. map (cantidad_num B) ss = map Inr qs \<and> tot = foldl js_add acc qs"
proof (induction ss arbitrary: acc)
  case Nil
  then show ?case by simp
next
  case (Cons s ss)
  from Cons.prems obtain n where n: "cantidad_num B s = Inr n"
    and r: "reduce B ss (js_add acc n) = Inr tot"
    by (auto split: sum.splits)
  from Cons.IH [OF r] obtain qs where
    "map (cantidad_num B) ss = map Inr qs" "tot = foldl js_add (js_add acc n) qs"
    by blast
  with n have "map (cantidad_num B) (s # ss) = map Inr (n # qs) \<and> tot = foldl js_add acc (n # qs)"
    by simp
  then show ?case by blast
qed

lemma total_of_Inr:
  assumes "total_of B stockList = Inr tot"
  shows "\<exists>qs. map (cantidad_num B) (stock_entries stockList) = map Inr qs
               \<and> tot = foldl js_add (Fin 0) qs"
proof -
  from assms obtain ss where a: "array_method ''(stockList || []).reduce'' (or_empty stockList) = Inr ss"
    and r: "reduce B ss (Fin 0) = Inr tot"
    by (auto simp: total_of_def split: sum.splits)
  from array_method_entries [OF a] reduce_Inr [OF r] show ?thesis by simp
qed

lemma item_of_Inr:
  assumes "item_of B it stockList = Inr i"
  shows "total_of B stockList = Inr (disponible i)
       \<and> sugerida B it stockList = Inr (id_sucursal_sugerida i)
       \<and> get_prop it ''id_producto'' = Inr (id_producto i)
       \<and> (\<exists>c. get_prop it ''cantidad'' = Inr c \<and> Number B c = Inr (solicitado i))"
  using assms by (auto simp: item_of_def split: sum.splits)

lemma js_add_nonneg: "js_ge a (Fin 0) \<Longrightarrow> js_ge b (Fin 0) \<Longrightarrow> js_ge (js_add a b) (Fin 0)"
  by (cases a; cases b) (simp_all add: round64_nonneg)

lemma foldl_js_add_nonneg:
  "js_ge acc (Fin 0) \<Longrightarrow> \<forall>q\<in>set qs. js_ge q (Fin 0) \<Longrightarrow> js_ge (foldl js_add acc qs) (Fin 0)"
  by (induction qs arbitrary: acc) (simp_all add: js_add_nonneg)

lemma cantidad_num_not_nullish: "cantidad_num B s = Inr n \<Longrightarrow> \<not> nullish s"
  by (cases s) (auto simp: cantidad_num_def cantidadField_def nullish_coalesce_def nullish_def)

lemma find_js_first:
  assumes "get_prop it ''cantidad'' = Inr c" and "Number B c = Inr m"
  shows "k < length ss \<Longrightarrow> cantidad_num B (ss ! k) = Inr n \<Longrightarrow> js_ge n m \<Longrightarrow>
         \<forall>j<k. \<exists>q. cantidad_num B (ss ! j) = Inr q \<and> \<not> js_ge q m \<Longrightarrow>
         find_js B it ss = Inr (ss ! k)"
proof (induction ss arbitrary: k)
  case Nil
  then show ?case by simp
next
  case (Cons s ss)
  show ?case
  proof (cases k)
    case 0
    with Cons.prems assms show ?thesis by simp
  next
    case (Suc k')
    from Cons.prems(4) Suc obtain q where q: "cantidad_num B s = Inr q" "\<not> js_ge q m"
      by fastforce
    have "\<forall>j<k'. \<exists>q. cantidad_num B (ss ! j) = Inr q \<and> \<not> js_ge q m"
      using Cons.prems(4) Suc by fastforce
    with Cons.IH [of k'] Cons.prems Suc have "find_js B it ss = Inr (ss ! k')" by simp
    with q assms Suc show ?thesis by simp
  qed
qed

lemma find_js_none:
  assumes "get_prop it ''cantidad'' = Inr c" and "Number B c = Inr m"
  shows "\<forall>s\<in>set ss. \<exists>q. cantidad_num B s = Inr q \<and> \<not> js_ge q m \<Longrightarrow>
         find_js B it ss = Inr Undefined"
  using assms by (induction ss) auto

lemma map_Inr_nth:
  "map f ss = map Inr qs \<Longrightarrow> j < length ss \<Longrightarrow> f (ss ! j) = Inr (qs ! j)"
  by (metis length_map nth_map)

lemma sugerida_at_first:
  assumes i: "item_of B it stockList = Inr i"
    and k: "k < length (stock_entries stockList)"
    and n: "cantidad_num B (stock_entries stockList ! k) = Inr n" "js_ge n (solicitado i)"
    and before: "\<forall>j<k. \<forall>q. cantidad_num B (stock_entries stockList ! j) = Inr q
                   \<longrightarrow> \<not> js_ge q (solicitado i)"
    and b: "get_prop (stock_entries stockList ! k) ''id_sucursal'' = Inr b"
  shows "id_sucursal_sugerida i = (if nullish b then JNull else b)"
proof -
  let ?ss = "stock_entries stockList"
  from item_of_Inr [OF i] obtain c where
    tot: "total_of B stockList = Inr (disponible i)" and
    sug: "sugerida B it stockList = Inr (id_sucursal_sugerida i)" and
    c: "get_prop it ''cantidad'' = Inr c" "Number B c = Inr (solicitado i)"
    by blast
  from total_of_Inr [OF tot] obtain qs where qs: "map (cantidad_num B) ?ss = map Inr qs"
    by blast
  have "\<forall>j<k. \<exists>q. cantidad_num B (?ss ! j) = Inr q \<and> \<not> js_ge q (solicitado i)"
  proof (intro allI impI)
    fix j assume "j < k"
    with k have "cantidad_num B (?ss ! j) = Inr (qs ! j)"
      using map_Inr_nth [OF qs, of j] by simp
    with before \<open>j < k\<close> show "\<exists>q. cantidad_num B (?ss ! j) = Inr q \<and> \<not> js_ge q (solicitado i)"
      by blast
  qed
  with find_js_first [OF c k n] have f: "find_js B it ?ss = Inr (?ss ! k)" by simp
  from sug obtain ss where a: "array_method ''(stockList || []).find'' (or_empty stockList) = Inr ss"
    by (auto simp: sugerida_def split: sum.splits)
  from array_method_entries [OF a] have ss: "ss = ?ss" by simp
  from cantidad_num_not_nullish [OF n(1)] have nn: "\<not> nullish (?ss ! k)" .
  from sug a ss f nn b show ?thesis
    by (auto simp: sugerida_def optional_chain_def nullish_coalesce_def)
qed

lemma sugerida_no_entry:
  assumes i: "item_of B it stockList = Inr i"
    and none: "\<forall>s\<in>set (stock_entries stockList). \<forall>q. cantidad_num B s = Inr q
                   \<longrightarrow> \<not> js_ge q (solicitado i)"
  shows "id_sucursal_sugerida i = JNull"
proof -
  let ?ss = "stock_entries stockList"
  from item_of_Inr [OF i] obtain c where
    tot: "total_of B stockList = Inr (disponible i)" and
    sug: "sugerida B it stockList = Inr (id_sucursal_sugerida i)" and
    c: "get_prop it ''cantidad'' = Inr c" "Number B c = Inr (solicitado i)"
    by blast
  from total_of_Inr [OF tot] obtain qs where qs: "map (cantidad_num B) ?ss = map Inr qs"
    by blast
  have "\<forall>s\<in>set ?ss. \<exists>q. cantidad_num B s = Inr q \<and> \<not> js_ge q (solicitado i)"
  proof
    fix s assume "s \<in> set ?ss"
    then obtain j where "j < length ?ss" "s = ?ss ! j" by (auto simp: in_set_conv_nth)
    with map_Inr_nth [OF qs, of j] have "cantidad_num B s = Inr (qs ! j)" by simp
    with none \<open>s \<in> set ?ss\<close> show "\<exists>q. cantidad_num B s = Inr q \<and> \<not> js_ge q (solicitado i)"
      by blast
  qed
  with find_js_none [OF c] have f: "find_js B it ?ss = Inr Undefined" by simp
  from sug obtain ss where a: "array_method ''(stockList || []).find'' (or_empty stockList) = Inr ss"
    by (auto simp: sugerida_def split: sum.splits)
  from array_method_entries [OF a] have ss: "ss = ?ss" by simp
  from sug a ss f show ?thesis
    by (auto simp: sugerida_def optional_chain_def nullish_coalesce_def nullish_def)
qed

lemma estado_cases:
  assumes "snd (validacion_try B up ident) = Inr v"
  shows "estado_sugerido v =
           (if ok (items v) then ''VALIDADA''
            else if parcial (items v) then ''PARCIAL'' else ''RECHAZADA'')"
  using assms
  by (auto simp: validacion_try_def split: prod.splits sum.splits)

lemma validacion_Inr:
  "snd (validacion_try B up ident) = Inr v \<Longrightarrow>
     snd (validacion B up ident) = (200, validation_json v)"
  by (auto simp: validacion_def split: prod.splits sum.splits)

lemma validacion_try_empty:
  assumes "up 0 (RecetasReceta ident) = (t, Inr r)"
    and "get_prop (data r) ''detalle'' = Inr d" and "or_empty d = JArr []"
    and "get_prop (data r) ''id_receta'' = Inr rid"
  shows "validacion_try B up ident =
           ([RecetasReceta ident],
            Inr \<lparr>id_receta = rid, estado_sugerido = ''VALIDADA'', items = []\<rparr>)"
  using assms
  by (simp add: validacion_try_def http_get_def then_data_def array_method_def
      Promise_all_def ok_def)

text \<open>
  A recipe payload that is itself \<^verbatim>\<open>null\<close> has no field to read: the handler
  answers 500.
\<close>

lemma validacion_payload_null:
  assumes "up 0 (RecetasReceta ident) = (t, Inr r)" and "data r = JNull"
  shows "validacion B up ident =
           ([RecetasReceta ident],
            (500, JObj [(''error'', JStr ''Orchestrator error''),
                        (''detail'',
                         JStr (''TypeError: Cannot read properties of null (reading ''
                               @ quoted ''detalle'' @ '')''))]))"
  using assms
  by (simp add: validacion_def validacion_try_def http_get_def then_data_def
      mapUpstreamError_def TypeError_def)

lemma Promise_all_Cons_Inr:
  assumes "Promise_all (p # ps) = Inr rs"
  shows "\<exists>t v rs'. p = (t, Inr v) \<and> Promise_all ps = Inr rs' \<and> rs = v # rs'"
proof -
  obtain t x where p: "p = (t, x)" by (cases p)
  show ?thesis
  proof (cases x)
    case (Inl e)
    with assms p show ?thesis
      by (auto simp: Promise_all_def split: option.splits prod.splits if_splits)
  next
    case (Inr v)
    with assms p show ?thesis by (auto simp: Promise_all_def split: option.splits)
  qed
qed

lemma item_promise_Inr:
  assumes "item_promise B up calls it = (calls', (t, Inr v))"
  shows "\<exists>pid t' r. get_prop it ''id_producto'' = Inr pid
           \<and> calls' = calls @ [InventarioStock pid Undefined]
           \<and> up (length calls) (InventarioStock pid Undefined) = (t', Inr r)
           \<and> item_of B it (data r) = Inr v"
  using assms
  by (auto simp: item_promise_def http_get_def then_data_def split: sum.splits prod.splits)

lemma map_items_Inr:
  "map_items B up calls its = (calls', ps) \<Longrightarrow> Promise_all ps = Inr rs \<Longrightarrow>
     length rs = length its
     \<and> (\<exists>pids. map (\<lambda>it. get_prop it ''id_producto'') its = map Inr pids
          \<and> calls' = calls @ map (\<lambda>p. InventarioStock p Undefined) pids
          \<and> (\<forall>k<length its. \<exists>t r.
                 up (length calls + k) (InventarioStock (pids ! k) Undefined) = (t, Inr r)
               \<and> item_of B (its ! k) (data r) = Inr (rs ! k)))"
proof (induction its arbitrary: calls calls' ps rs)
  case Nil
  then show ?case by (simp add: Promise_all_def)
next
  case (Cons it its)
  obtain c1 p where ip: "item_promise B up calls it = (c1, p)"
    by (cases "item_promise B up calls it")
  obtain c2 ps' where mi: "map_items B up c1 its = (c2, ps')"
    by (cases "map_items B up c1 its")
  from Cons.prems(1) ip mi have eq: "calls' = c2" "ps = p # ps'" by simp_all
  from Promise_all_Cons_Inr Cons.prems(2) eq(2) obtain t v rs' where
    p: "p = (t, Inr v)" and pa: "Promise_all ps' = Inr rs'" and rs: "rs = v # rs'"
    by blast
  from item_promise_Inr ip p obtain pid t' r where
    pid: "get_prop it ''id_producto'' = Inr pid" and
    c1: "c1 = calls @ [InventarioStock pid Undefined]" and
    up0: "up (length calls) (InventarioStock pid Undefined) = (t', Inr r)" and
    it0: "item_of B it (data r) = Inr v"
    by blast
  from Cons.IH [OF mi pa] obtain pids where
    len: "length rs' = length its" and
    pids: "map (\<lambda>it. get_prop it ''id_producto'') its = map Inr pids" and
    c2: "c2 = c1 @ map (\<lambda>p. InventarioStock p Undefined) pids" and
    rest: "\<forall>k<length its. \<exists>t r.
             up (length c1 + k) (InventarioStock (pids ! k) Undefined) = (t, Inr r)
           \<and> item_of B (its ! k) (data r) = Inr (rs' ! k)"
    by blast
  have "\<forall>k<length (it # its). \<exists>t r.
          up (length calls + k) (InventarioStock ((pid # pids) ! k) Undefined) = (t, Inr r)
        \<and> item_of B ((it # its) ! k) (data r) = Inr (rs ! k)"
  proof (intro allI impI)
    fix k assume k: "k < length (it # its)"
    show "\<exists>t r. up (length calls + k) (InventarioStock ((pid # pids) ! k) Undefined) = (t, Inr r)
        \<and> item_of B ((it # its) ! k) (data r) = Inr (rs ! k)"
    proof (cases k)
      case 0
      with up0 it0 rs show ?thesis by simp
    next
      case (Suc k')
      with k rest c1 rs show ?thesis by simp
    qed
  qed
  moreover have "map (\<lambda>it. get_prop it ''id_producto'') (it # its) = map Inr (pid # pids)"
    using pid pids by simp
  moreover have "calls' = calls @ map (\<lambda>p. InventarioStock p Undefined) (pid # pids)"
    using eq(1) c2 c1 by simp
  moreover have "length rs = length (it # its)" using rs len by simp
  ultimately show ?case by blast
qed

text \<open>
  What a validation result is made of: the recipe request was fulfilled, every
  ingredient issued one stock request, in order, each was fulfilled, and the \<open>k\<close>-th
  item is \<open>item_of\<close> on the \<open>k\<close>-th ingredient and the payload of its reply.  The
  statements about \<open>item_of\<close> below are therefore statements about the items the
  handler returns.
\<close>

lemma validacion_try_Inr:
  assumes "snd (validacion_try B up ident) = Inr v"
  shows "\<exists>t r its pids.
           up 0 (RecetasReceta ident) = (t, Inr r)
         \<and> get_prop (data r) ''id_receta'' = Inr (id_receta v)
         \<and> (\<exists>d. get_prop (data r) ''detalle'' = Inr d \<and> or_empty d = JArr its)
         \<and> length (items v) = length its
         \<and> map (\<lambda>it. get_prop it ''id_producto'') its = map Inr pids
         \<and> fst (validacion_try B up ident) =
             RecetasReceta ident # map (\<lambda>p. InventarioStock p Undefined) pids
         \<and> (\<forall>k<length its. \<exists>t' r'.
               up (Suc k) (InventarioStock (pids ! k) Undefined) = (t', Inr r')
             \<and> item_of B (its ! k) (data r') = Inr (items v ! k))"
proof -
  obtain t x where u: "up 0 (RecetasReceta ident) = (t, x)"
    by (cases "up 0 (RecetasReceta ident)")
  from assms u obtain r where x: "x = Inr r"
    by (cases x) (auto simp: validacion_try_def http_get_def then_data_def)
  from assms u x obtain d where d: "get_prop (data r) ''detalle'' = Inr d"
    by (auto simp: validacion_try_def http_get_def then_data_def split: sum.splits)
  from assms u x d obtain its where its: "array_method ''(receta.detalle || []).map'' (or_empty d) = Inr its"
    by (auto simp: validacion_try_def http_get_def then_data_def split: sum.splits)
  obtain calls' ps where mi: "map_items B up [RecetasReceta ident] its = (calls', ps)"
    by (cases "map_items B up [RecetasReceta ident] its")
  from assms u x d its mi obtain rs where pa: "Promise_all ps = Inr rs"
    by (auto simp: validacion_try_def http_get_def then_data_def split: sum.splits)
  from assms u x d its mi pa have
    rid: "get_prop (data r) ''id_receta'' = Inr (id_receta v)" and rs: "items v = rs"
    by (auto simp: validacion_try_def http_get_def then_data_def split: sum.splits)
  from u x d its mi have calls: "fst (validacion_try B up ident) = calls'"
    by (simp add: validacion_try_def http_get_def then_data_def)
  from map_items_Inr [OF mi pa] obtain pids where
    "length rs = length its"
    "map (\<lambda>it. get_prop it ''id_producto'') its = map Inr pids"
    "calls' = [RecetasReceta ident] @ map (\<lambda>p. InventarioStock p Undefined) pids"
    "\<forall>k<length its. \<exists>t r.
        up (length [RecetasReceta ident] + k) (InventarioStock (pids ! k) Undefined) = (t, Inr r)
      \<and> item_of B (its ! k) (data r) = Inr (rs ! k)"
    by blast
  with u x rid rs calls d array_method_Inr [OF its] show ?thesis by auto
qed

lemmas eval_defs = item_of_def total_of_def sugerida_def or_empty_def array_method_def
        cantidad_num_def cantidadField_def nullish_coalesce_def nullish_def optional_chain_def
        stock_entries_def

lemmas handler_defs = validacion_def validacion_try_def http_get_def then_data_def
  item_promise_def Promise_all_def ok_def parcial_def upstream_of_def
  validation_json_def item_json_def

lemma stock_entries_JArr: "or_empty stockList = JArr ss \<Longrightarrow> stock_entries stockList = ss"
  by (simp add: stock_entries_def)

lemma reduce_returns:
  "map (cantidad_num B) ss = map Inr qs \<Longrightarrow> reduce B ss acc = Inr (foldl js_add acc qs)"
proof (induction ss arbitrary: acc qs)
  case Nil
  then show ?case by simp
next
  case (Cons s ss)
  then obtain q qs' where "qs = q # qs'" "cantidad_num B s = Inr q"
    "map (cantidad_num B) ss = map Inr qs'"
    by (auto simp: Cons_eq_map_conv)
  with Cons.IH show ?case by simp
qed

lemma find_js_returns:
  assumes "get_prop it ''cantidad'' = Inr c" and "Number B c = Inr m"
  shows "map (cantidad_num B) ss = map Inr qs \<Longrightarrow>
         \<exists>found. find_js B it ss = Inr found \<and> (found = Undefined \<or> found \<in> set ss)"
proof (induction ss arbitrary: qs)
  case Nil
  then show ?case by simp
next
  case (Cons s ss)
  then obtain q qs' where q: "qs = q # qs'" "cantidad_num B s = Inr q"
    "map (cantidad_num B) ss = map Inr qs'"
    by (auto simp: Cons_eq_map_conv)
  from Cons.IH [OF q(3)] obtain found where
    "find_js B it ss = Inr found" "found = Undefined \<or> found \<in> set ss"
    by blast
  with q assms show ?case by auto
qed

text \<open>
  The mapper returns an item whenever the ingredient can be read, its quantity converts,
  the listing is an array or falsy, and every entry has a coerced quantity.
\<close>

lemma item_of_returns:
  assumes pid: "get_prop it ''id_producto'' = Inr pid"
    and c: "get_prop it ''cantidad'' = Inr c" "Number B c = Inr m"
    and ss: "or_empty stockList = JArr ss"
    and qs: "map (cantidad_num B) ss = map Inr qs"
  shows "\<exists>sug. item_of B it stockList =
           Inr \<lparr>id_producto = pid, solicitado = m, disponible = foldl js_add (Fin 0) qs,
                id_sucursal_sugerida = sug\<rparr>"
proof -
  have tot: "total_of B stockList = Inr (foldl js_add (Fin 0) qs)"
    using ss reduce_returns [OF qs] by (simp add: total_of_def array_method_def)
  from find_js_returns [OF c qs] obtain found where
    f: "find_js B it ss = Inr found" "found = Undefined \<or> found \<in> set ss"
    by blast
  have "\<exists>b. optional_chain found ''id_sucursal'' = Inr b"
  proof (cases "found = Undefined")
    case True
    then show ?thesis by (simp add: optional_chain_def nullish_def)
  next
    case False
    with f(2) obtain j where j: "j < length ss" "found = ss ! j"
      by (auto simp: in_set_conv_nth)
    with map_Inr_nth [OF qs, of j] have "cantidad_num B found = Inr (qs ! j)" by simp
    from cantidad_num_not_nullish [OF this] show ?thesis
      by (cases found) (simp_all add: optional_chain_def nullish_def)
  qed
  then obtain b where b: "optional_chain found ''id_sucursal'' = Inr b" by blast
  have "sugerida B it stockList = Inr (if nullish b then JNull else b)"
    using ss f(1) b by (simp add: sugerida_def array_method_def nullish_coalesce_def)
  with tot pid c show ?thesis by (simp add: item_of_def)
qed

lemma Promise_all_Cons_fulfilled:
  "Promise_all ps = Inr rs \<Longrightarrow> Promise_all ((t, Inr v) # ps) = Inr (v # rs)"
  by (auto simp: Promise_all_def split: option.splits)

lemma map_items_returns:
  "length rs = length its \<Longrightarrow>
   \<forall>k<length its. \<exists>pid t' r'.
       get_prop (its ! k) ''id_producto'' = Inr pid
     \<and> up (length calls + k) (InventarioStock pid Undefined) = (t', Inr r')
     \<and> item_of B (its ! k) (data r') = Inr (rs ! k) \<Longrightarrow>
   \<exists>calls' ps. map_items B up calls its = (calls', ps) \<and> Promise_all ps = Inr rs"
proof (induction its arbitrary: rs calls)
  case Nil
  then show ?case by (simp add: Promise_all_def)
next
  case (Cons it its)
  from Cons.prems(1) obtain v rs' where rs: "rs = v # rs'" "length rs' = length its"
    by (cases rs) simp_all
  from Cons.prems(2) [rule_format, of 0] rs obtain pid t' r' where
    h0: "get_prop it ''id_producto'' = Inr pid"
        "up (length calls) (InventarioStock pid Undefined) = (t', Inr r')"
        "item_of B it (data r') = Inr v"
    by auto
  let ?c1 = "calls @ [InventarioStock pid Undefined]"
  have ip: "item_promise B up calls it = (?c1, (Suc t', Inr v))"
    using h0 by (simp add: item_promise_def http_get_def then_data_def)
  have "\<forall>k<length its. \<exists>pid t' r'.
       get_prop (its ! k) ''id_producto'' = Inr pid
     \<and> up (length ?c1 + k) (InventarioStock pid Undefined) = (t', Inr r')
     \<and> item_of B (its ! k) (data r') = Inr (rs' ! k)"
  proof (intro allI impI)
    fix k assume "k < length its"
    then have "Suc k < length (it # its)" by simp
    from Cons.prems(2) [rule_format, OF this] rs
    show "\<exists>pid t' r'.
       get_prop (its ! k) ''id_producto'' = Inr pid
     \<and> up (length ?c1 + k) (InventarioStock pid Undefined) = (t', Inr r')
     \<and> item_of B (its ! k) (data r') = Inr (rs' ! k)"
      by simp
  qed
  from Cons.IH [OF rs(2) this] obtain calls' ps where
    mi: "map_items B up ?c1 its = (calls', ps)" and pa: "Promise_all ps = Inr rs'"
    by blast
  from ip mi have "map_items B up calls (it # its) = (calls', (Suc t', Inr v) # ps)" by simp
  moreover from pa rs have "Promise_all ((Suc t', Inr v) # ps) = Inr rs"
    by (simp add: Promise_all_Cons_fulfilled)
  ultimately show ?case by blast
qed

text \<open>
  The handler returns a result whenever the recipe lookup is fulfilled, \<^verbatim>\<open>detalle\<close> is
  an array or falsy, and every ingredient's stock lookup is fulfilled with a listing on
  which the mapper returns an item.
\<close>

lemma validacion_try_returns:
  assumes "up 0 (RecetasReceta ident) = (t, Inr r)"
    and "get_prop (data r) ''detalle'' = Inr d" and "or_empty d = JArr its"
    and "get_prop (data r) ''id_receta'' = Inr rid"
    and "length rs = length its"
    and "\<forall>k<length its. \<exists>pid t' r'.
           get_prop (its ! k) ''id_producto'' = Inr pid
         \<and> up (Suc k) (InventarioStock pid Undefined) = (t', Inr r')
         \<and> item_of B (its ! k) (data r') = Inr (rs ! k)"
  shows "snd (validacion_try B up ident) =
           Inr \<lparr>id_receta = rid,
                estado_sugerido =
                  (if ok rs then ''VALIDADA'' else if parcial rs then ''PARCIAL''
                   else ''RECHAZADA''),
                items = rs\<rparr>"
proof -
  from assms(6) have "\<forall>k<length its. \<exists>pid t' r'.
           get_prop (its ! k) ''id_producto'' = Inr pid
         \<and> up (length [RecetasReceta ident] + k) (InventarioStock pid Undefined) = (t', Inr r')
         \<and> item_of B (its ! k) (data r') = Inr (rs ! k)"
    by simp
  from map_items_returns [OF assms(5) this] obtain calls' ps where
    "map_items B up [RecetasReceta ident] its = (calls', ps)" "Promise_all ps = Inr rs"
    by blast
  with assms(1-4) show ?thesis
    by (simp add: validacion_try_def http_get_def then_data_def array_method_def)
qed

text \<open>
  The conditions under which the recipe of the worked example is validated, for any
  stock replies to its two ingredients.
\<close>

lemma run_hyps:
  assumes "stk (JStr ''A'') = (ta, Inr \<lparr>status = 200, data = sa\<rparr>)"
    and "stk (JStr ''B'') = (tb, Inr \<lparr>status = 200, data = sb\<rparr>)"
    and "item_of conversions0 (detalle_AB ! 0) sa = Inr ia"
    and "item_of conversions0 (detalle_AB ! 1) sb = Inr ib"
  shows "upstream_of cat stk (1, Inr \<lparr>status = 200, data = receta_AB\<rparr>) 0 (RecetasReceta ''r1'')
           = (1, Inr \<lparr>status = 200, data = receta_AB\<rparr>)
        \<and> get_prop (data \<lparr>status = 200, data = receta_AB\<rparr>) ''detalle'' = Inr (JArr detalle_AB)
        \<and> or_empty (JArr detalle_AB) = JArr detalle_AB
        \<and> get_prop (data \<lparr>status = 200, data = receta_AB\<rparr>) ''id_receta'' = Inr (JStr ''r1'')
        \<and> length [ia, ib] = length detalle_AB
        \<and> (\<forall>k<length detalle_AB. \<exists>pid t' r'.
               get_prop (detalle_AB ! k) ''id_producto'' = Inr pid
             \<and> upstream_of cat stk (1, Inr \<lparr>status = 200, data = receta_AB\<rparr>) (Suc k)
                 (InventarioStock pid Undefined) = (t', Inr r')
             \<and> item_of conversions0 (detalle_AB ! k) (data r') = Inr ([ia, ib] ! k))"
  using assms
  by (simp add: upstream_of_def receta_AB_def detalle_AB_def or_empty_def All_less_Suc
      numeral_2_eq_2)

section \<open>Recipe validation\<close>

text \<open>
  C3.  For a stock entry in which exactly one of \<^verbatim>\<open>cantidad_actual\<close>, \<^verbatim>\<open>stock_actual\<close>,
  \<^verbatim>\<open>cantidad\<close> holds a number and the other two are absent, the coerced quantity
  \<^verbatim>\<open>Number(cantidadField(s))\<close> is that number; for an entry in which all three are
  absent it is 0.
\<close>

theorem cantidad_num_fields:
  "(k \<in> {''cantidad_actual'', ''stock_actual'', ''cantidad''} \<and> map_of kvs k = Some (JNum n)
      \<and> (\<forall>k'\<in>{''cantidad_actual'', ''stock_actual'', ''cantidad''}. k' \<noteq> k \<longrightarrow> map_of kvs k' = None)
      \<longrightarrow> cantidad_num B (JObj kvs) = Inr n)
   \<and> ((\<forall>k\<in>{''cantidad_actual'', ''stock_actual'', ''cantidad''}. map_of kvs k = None)
      \<longrightarrow> cantidad_num B (JObj kvs) = Inr (Fin 0))"
  by (auto simp: cantidad_num_def cantidadField_def nullish_coalesce_def nullish_def)

theorem cantidad_num_fields_witness:
  "cantidad_num conversions0 (JObj [(''id_sucursal'', JStr ''S1''), (''stock_actual'', JNum (Fin 7))])
     = Inr (Fin 7)
   \<and> cantidad_num conversions0 (JObj [(''id_sucursal'', JStr ''S1'')]) = Inr (Fin 0)"
  using cantidad_num_fields [of "''stock_actual''"
      "[(''id_sucursal'', JStr ''S1''), (''stock_actual'', JNum (Fin 7))]" "Fin 7" conversions0]
    cantidad_num_fields [of "''cantidad''" "[(''id_sucursal'', JStr ''S1'')]" NaN conversions0]
  by simp

text \<open>
  C5, as the claim states it, fails: nothing floors a quantity at 0.  For a recipe with
  one ingredient whose only stock entry reports \<^verbatim>\<open>cantidad_actual\<close> = -3, the handler
  answers 200 with \<^verbatim>\<open>disponible\<close> = -3.
\<close>

theorem disponible_negativo_counterexample:
  "snd (validacion conversions0
     (upstream_of (0, Inl no_response)
        (\<lambda>p. (2, Inr \<lparr>status = 200,
                       data = JArr [JObj [(''id_sucursal'', JStr ''S1''),
                                          (''cantidad_actual'', JNum (Fin (- 3)))]]\<rparr>))
        (1, Inr \<lparr>status = 200,
                 data = JObj [(''id_receta'', JStr ''r5''),
                              (''detalle'',
                               JArr [JObj [(''id_producto'', JStr ''P''),
                                           (''cantidad'', JNum (Fin 1))]])]\<rparr>))
     ''r5'') =
     (200, JObj [(''id_receta'', JStr ''r5''), (''estado_sugerido'', JStr ''RECHAZADA''),
                 (''items'',
                  JArr [JObj [(''id_producto'', JStr ''P''),
                              (''solicitado'', JNum (Fin 1)),
                              (''disponible'', JNum (Fin (- 3))),
                              (''id_sucursal_sugerida'', JNull)]])])
   \<and> \<not> js_ge (Fin (- 3)) (Fin 0)"
  by (simp add: handler_defs eval_defs round64_eval)

text \<open>
  C5, amended.  For an ingredient whose stock listing is an array (or falsy) of entries
  that each have a coerced quantity, the mapper returns an item whose \<^verbatim>\<open>disponible\<close>
  is the sum of those coerced quantities, added from 0 in the order of the listing with
  the language's \<^verbatim>\<open>+\<close> (each partial sum rounded to a double); it is not negative
  whenever no coerced quantity is negative.  Conversely, the \<^verbatim>\<open>disponible\<close> of every
  item the mapper returns is such a sum.
\<close>

theorem disponible_suma:
  "(get_prop it ''id_producto'' = Inr pid
      \<and> get_prop it ''cantidad'' = Inr c \<and> Number B c = Inr m
      \<and> or_empty stockList = JArr ss
      \<and> map (cantidad_num B) ss = map Inr qs \<longrightarrow>
    (\<exists>sug. item_of B it stockList =
              Inr \<lparr>id_producto = pid, solicitado = m, disponible = foldl js_add (Fin 0) qs,
                   id_sucursal_sugerida = sug\<rparr>)
    \<and> ((\<forall>q\<in>set qs. js_ge q (Fin 0)) \<longrightarrow> js_ge (foldl js_add (Fin 0) qs) (Fin 0)))
   \<and> (item_of B it stockList = Inr i \<longrightarrow>
        (\<exists>qs. map (cantidad_num B) (stock_entries stockList) = map Inr qs
           \<and> disponible i = foldl js_add (Fin 0) qs
           \<and> ((\<forall>q\<in>set qs. js_ge q (Fin 0)) \<longrightarrow> js_ge (disponible i) (Fin 0))))"
proof (intro conjI impI)
  assume h: "get_prop it ''id_producto'' = Inr pid
      \<and> get_prop it ''cantidad'' = Inr c \<and> Number B c = Inr m
      \<and> or_empty stockList = JArr ss
      \<and> map (cantidad_num B) ss = map Inr qs"
  then show "\<exists>sug. item_of B it stockList =
              Inr \<lparr>id_producto = pid, solicitado = m, disponible = foldl js_add (Fin 0) qs,
                   id_sucursal_sugerida = sug\<rparr>"
    using item_of_returns [of it pid c B m stockList ss qs] by blast
next
  assume "\<forall>q\<in>set qs. js_ge q (Fin 0)"
  then show "js_ge (foldl js_add (Fin 0) qs) (Fin 0)"
    by (simp add: foldl_js_add_nonneg)
next
  assume i: "item_of B it stockList = Inr i"
  from item_of_Inr [OF i] have "total_of B stockList = Inr (disponible i)" by simp
  from total_of_Inr [OF this] obtain qs where
    qs: "map (cantidad_num B) (stock_entries stockList) = map Inr qs"
        "disponible i = foldl js_add (Fin 0) qs"
    by blast
  have "(\<forall>q\<in>set qs. js_ge q (Fin 0)) \<longrightarrow> js_ge (disponible i) (Fin 0)"
    using qs(2) by (simp add: foldl_js_add_nonneg)
  with qs show "\<exists>qs. map (cantidad_num B) (stock_entries stockList) = map Inr qs
           \<and> disponible i = foldl js_add (Fin 0) qs
           \<and> ((\<forall>q\<in>set qs. js_ge q (Fin 0)) \<longrightarrow> js_ge (disponible i) (Fin 0))"
    by blast
qed

theorem disponible_suma_witness:
  "item_of conversions0 (JObj [(''id_producto'', JStr ''A''), (''cantidad'', JNum (Fin 5))])
      stock_A = Inr item_A
   \<and> disponible item_A = foldl js_add (Fin 0) [Fin 2, Fin 10]
   \<and> js_ge (disponible item_A) (Fin 0)"
proof -
  let ?it = "JObj [(''id_producto'', JStr ''A''), (''cantidad'', JNum (Fin 5))]"
  let ?s1 = "JObj [(''id_sucursal'', JStr ''S1''), (''cantidad'', JNum (Fin 2))]"
  let ?s2 = "JObj [(''id_sucursal'', JStr ''S2''), (''stock_actual'', JNum (Fin 10))]"
  note T = disponible_suma [of ?it "JStr ''A''" "JNum (Fin 5)" conversions0 "Fin 5" stock_A
      "[?s1, ?s2]" "[Fin 2, Fin 10]" item_A]
  have H: "get_prop ?it ''id_producto'' = Inr (JStr ''A'')
      \<and> get_prop ?it ''cantidad'' = Inr (JNum (Fin 5)) \<and> Number conversions0 (JNum (Fin 5)) = Inr (Fin 5)
      \<and> or_empty stock_A = JArr [?s1, ?s2]
      \<and> map (cantidad_num conversions0) [?s1, ?s2] = map Inr [Fin 2, Fin 10]"
    by (simp add: eval_defs stock_A_def)
  from mp [OF T [THEN conjunct1] H] obtain sug where
    i: "item_of conversions0 ?it stock_A =
          Inr \<lparr>id_producto = JStr ''A'', solicitado = Fin 5,
               disponible = foldl js_add (Fin 0) [Fin 2, Fin 10], id_sucursal_sugerida = sug\<rparr>"
    and nn: "(\<forall>q\<in>set [Fin 2, Fin 10]. js_ge q (Fin 0))
               \<longrightarrow> js_ge (foldl js_add (Fin 0) [Fin 2, Fin 10]) (Fin 0)"
    by (elim exE conjE)
  have e: "item_of conversions0 ?it stock_A = Inr item_A"
    by (simp add: eval_defs round64_eval stock_A_def item_A_def)
  with i have "item_A =
          \<lparr>id_producto = JStr ''A'', solicitado = Fin 5,
           disponible = foldl js_add (Fin 0) [Fin 2, Fin 10], id_sucursal_sugerida = sug\<rparr>"
    by (simp only: sum.inject)
  then have d: "disponible item_A = foldl js_add (Fin 0) [Fin 2, Fin 10]"
    by (rule ssubst) (simp only: item.simps)
  from nn have "js_ge (foldl js_add (Fin 0) [Fin 2, Fin 10]) (Fin 0)" by simp
  with d e show ?thesis by simp
qed

text \<open>
  C2.  For an ingredient whose stock listing is an array (or falsy) of entries that each
  have a coerced quantity, the mapper returns an item whose \<^verbatim>\<open>id_sucursal_sugerida\<close>
  is the \<^verbatim>\<open>id_sucursal\<close> of the first entry of the listing, in the order received,
  whose own coerced quantity is \<^verbatim>\<open>>=\<close> the requested quantity (an absent or null
  \<^verbatim>\<open>id_sucursal\<close> reading as null), and null when no entry qualifies.  In particular,
  for the listing S1 with 5 and S2 with 100 and a request of 5 it is S1, and for the
  listing S1 with 2 and S2 with 10 and a request of 5 it is S2.
\<close>

theorem sugerida_primera:
  "(get_prop it ''id_producto'' = Inr pid
      \<and> get_prop it ''cantidad'' = Inr c \<and> Number B c = Inr m
      \<and> or_empty stockList = JArr ss
      \<and> map (cantidad_num B) ss = map Inr qs \<longrightarrow>
    (\<exists>sug. item_of B it stockList =
              Inr \<lparr>id_producto = pid, solicitado = m, disponible = foldl js_add (Fin 0) qs,
                   id_sucursal_sugerida = sug\<rparr>
       \<and> (\<forall>k b. k < length ss \<and> js_ge (qs ! k) m \<and> (\<forall>j<k. \<not> js_ge (qs ! j) m)
                 \<and> get_prop (ss ! k) ''id_sucursal'' = Inr b
              \<longrightarrow> sug = (if nullish b then JNull else b))
       \<and> ((\<forall>k<length ss. \<not> js_ge (qs ! k) m) \<longrightarrow> sug = JNull)))
   \<and> item_of B (JObj [(''id_producto'', JStr ''P''), (''cantidad'', JNum (Fin 5))])
        (JArr [JObj [(''id_sucursal'', JStr ''S1''), (''cantidad_actual'', JNum (Fin 5))],
               JObj [(''id_sucursal'', JStr ''S2''), (''cantidad_actual'', JNum (Fin 100))]])
      = Inr \<lparr>id_producto = JStr ''P'', solicitado = Fin 5, disponible = Fin 105,
             id_sucursal_sugerida = JStr ''S1''\<rparr>
   \<and> item_of B (JObj [(''id_producto'', JStr ''A''), (''cantidad'', JNum (Fin 5))])
        (JArr [JObj [(''id_sucursal'', JStr ''S1''), (''cantidad_actual'', JNum (Fin 2))],
               JObj [(''id_sucursal'', JStr ''S2''), (''cantidad_actual'', JNum (Fin 10))]])
      = Inr \<lparr>id_producto = JStr ''A'', solicitado = Fin 5, disponible = Fin 12,
             id_sucursal_sugerida = JStr ''S2''\<rparr>"
proof (intro conjI impI)
  assume h: "get_prop it ''id_producto'' = Inr pid
      \<and> get_prop it ''cantidad'' = Inr c \<and> Number B c = Inr m
      \<and> or_empty stockList = JArr ss
      \<and> map (cantidad_num B) ss = map Inr qs"
  then have qs: "map (cantidad_num B) ss = map Inr qs" and ss: "stock_entries stockList = ss"
    by (simp_all add: stock_entries_JArr)
  from h item_of_returns [of it pid c B m stockList ss qs] obtain sug where
    i: "item_of B it stockList =
          Inr \<lparr>id_producto = pid, solicitado = m, disponible = foldl js_add (Fin 0) qs,
               id_sucursal_sugerida = sug\<rparr>"
    by blast
  let ?i = "\<lparr>id_producto = pid, solicitado = m, disponible = foldl js_add (Fin 0) qs,
               id_sucursal_sugerida = sug\<rparr>"
  have first: "\<forall>k b. k < length ss \<and> js_ge (qs ! k) m \<and> (\<forall>j<k. \<not> js_ge (qs ! j) m)
                 \<and> get_prop (ss ! k) ''id_sucursal'' = Inr b
              \<longrightarrow> sug = (if nullish b then JNull else b)"
  proof (intro allI impI)
    fix k b
    assume a: "k < length ss \<and> js_ge (qs ! k) m \<and> (\<forall>j<k. \<not> js_ge (qs ! j) m)
                 \<and> get_prop (ss ! k) ''id_sucursal'' = Inr b"
    then have k: "k < length ss" by simp
    have ck: "cantidad_num B (ss ! k) = Inr (qs ! k)" using map_Inr_nth [OF qs k] .
    have before: "\<forall>j<k. \<forall>q. cantidad_num B (ss ! j) = Inr q \<longrightarrow> \<not> js_ge q (solicitado ?i)"
    proof (intro allI impI)
      fix j q assume "j < k" and q: "cantidad_num B (ss ! j) = Inr q"
      with k map_Inr_nth [OF qs, of j] have "q = qs ! j" by simp
      with a \<open>j < k\<close> show "\<not> js_ge q (solicitado ?i)" by simp
    qed
    from sugerida_at_first [of B it stockList ?i k "qs ! k" b] i ss k ck a before
    show "sug = (if nullish b then JNull else b)" by simp
  qed
  have none: "(\<forall>k<length ss. \<not> js_ge (qs ! k) m) \<longrightarrow> sug = JNull"
  proof
    assume n: "\<forall>k<length ss. \<not> js_ge (qs ! k) m"
    have "\<forall>s\<in>set (stock_entries stockList). \<forall>q. cantidad_num B s = Inr q
              \<longrightarrow> \<not> js_ge q (solicitado ?i)"
    proof (intro ballI allI impI)
      fix s q assume "s \<in> set (stock_entries stockList)" and q: "cantidad_num B s = Inr q"
      with ss obtain j where j: "j < length ss" "s = ss ! j" by (auto simp: in_set_conv_nth)
      with q map_Inr_nth [OF qs, of j] have "q = qs ! j" by simp
      with n j show "\<not> js_ge q (solicitado ?i)" by simp
    qed
    from sugerida_no_entry [OF i this] show "sug = JNull" by simp
  qed
  from i first none
  show "\<exists>sug. item_of B it stockList =
              Inr \<lparr>id_producto = pid, solicitado = m, disponible = foldl js_add (Fin 0) qs,
                   id_sucursal_sugerida = sug\<rparr>
       \<and> (\<forall>k b. k < length ss \<and> js_ge (qs ! k) m \<and> (\<forall>j<k. \<not> js_ge (qs ! j) m)
                 \<and> get_prop (ss ! k) ''id_sucursal'' = Inr b
              \<longrightarrow> sug = (if nullish b then JNull else b))
       \<and> ((\<forall>k<length ss. \<not> js_ge (qs ! k) m) \<longrightarrow> sug = JNull)"
    by blast
next
  show "item_of B (JObj [(''id_producto'', JStr ''P''), (''cantidad'', JNum (Fin 5))])
        (JArr [JObj [(''id_sucursal'', JStr ''S1''), (''cantidad_actual'', JNum (Fin 5))],
               JObj [(''id_sucursal'', JStr ''S2''), (''cantidad_actual'', JNum (Fin 100))]])
      = Inr \<lparr>id_producto = JStr ''P'', solicitado = Fin 5, disponible = Fin 105,
             id_sucursal_sugerida = JStr ''S1''\<rparr>"
    by (simp add: eval_defs round64_eval)
next
  show "item_of B (JObj [(''id_producto'', JStr ''A''), (''cantidad'', JNum (Fin 5))])
        (JArr [JObj [(''id_sucursal'', JStr ''S1''), (''cantidad_actual'', JNum (Fin 2))],
               JObj [(''id_sucursal'', JStr ''S2''), (''cantidad_actual'', JNum (Fin 10))]])
      = Inr \<lparr>id_producto = JStr ''A'', solicitado = Fin 5, disponible = Fin 12,
             id_sucursal_sugerida = JStr ''S2''\<rparr>"
    by (simp add: eval_defs round64_eval)
qed

theorem sugerida_primera_witness:
  "item_of conversions0 (JObj [(''id_producto'', JStr ''A''), (''cantidad'', JNum (Fin 5))])
      stock_A = Inr item_A
   \<and> id_sucursal_sugerida item_A = JStr ''S2''"
proof -
  let ?it = "JObj [(''id_producto'', JStr ''A''), (''cantidad'', JNum (Fin 5))]"
  let ?s1 = "JObj [(''id_sucursal'', JStr ''S1''), (''cantidad'', JNum (Fin 2))]"
  let ?s2 = "JObj [(''id_sucursal'', JStr ''S2''), (''stock_actual'', JNum (Fin 10))]"
  note T = sugerida_primera [of ?it "JStr ''A''" "JNum (Fin 5)" conversions0 "Fin 5" stock_A
      "[?s1, ?s2]" "[Fin 2, Fin 10]"]
  have H: "get_prop ?it ''id_producto'' = Inr (JStr ''A'')
      \<and> get_prop ?it ''cantidad'' = Inr (JNum (Fin 5)) \<and> Number conversions0 (JNum (Fin 5)) = Inr (Fin 5)
      \<and> or_empty stock_A = JArr [?s1, ?s2]
      \<and> map (cantidad_num conversions0) [?s1, ?s2] = map Inr [Fin 2, Fin 10]"
    by (simp add: eval_defs stock_A_def)
  from mp [OF T [THEN conjunct1] H] obtain sug where
    i: "item_of conversions0 ?it stock_A =
          Inr \<lparr>id_producto = JStr ''A'', solicitado = Fin 5,
               disponible = foldl js_add (Fin 0) [Fin 2, Fin 10], id_sucursal_sugerida = sug\<rparr>"
    and f: "\<forall>k b. k < length [?s1, ?s2] \<and> js_ge ([Fin 2, Fin 10] ! k) (Fin 5)
                 \<and> (\<forall>j<k. \<not> js_ge ([Fin 2, Fin 10] ! j) (Fin 5))
                 \<and> get_prop ([?s1, ?s2] ! k) ''id_sucursal'' = Inr b
              \<longrightarrow> sug = (if nullish b then JNull else b)"
    by (elim exE conjE)
  from f [rule_format, of 1 "JStr ''S2''"] have "sug = JStr ''S2''"
    by (simp add: nullish_def)
  with i show ?thesis by (simp add: item_A_def round64_eval)
qed

text \<open>
  C10.  When the first entry whose coerced quantity is \<^verbatim>\<open>>=\<close> the requested quantity
  has no \<^verbatim>\<open>id_sucursal\<close> (absent or null), \<^verbatim>\<open>id_sucursal_sugerida\<close> is null, whatever
  the later entries hold.
\<close>

theorem sugerida_sin_sucursal:
  assumes "item_of B it stockList = Inr i"
    and "k < length (stock_entries stockList)"
    and "cantidad_num B (stock_entries stockList ! k) = Inr n" and "js_ge n (solicitado i)"
    and "\<forall>j<k. \<forall>q. cantidad_num B (stock_entries stockList ! j) = Inr q
                   \<longrightarrow> \<not> js_ge q (solicitado i)"
    and "get_prop (stock_entries stockList ! k) ''id_sucursal'' = Inr b" and "nullish b"
  shows "id_sucursal_sugerida i = JNull"
  using sugerida_at_first [OF assms(1-6)] assms(7) by simp

theorem sugerida_sin_sucursal_witness:
  "item_of conversions0 (JObj [(''id_producto'', JStr ''P''), (''cantidad'', JNum (Fin 5))])
        (JArr [JObj [(''cantidad_actual'', JNum (Fin 10))],
               JObj [(''id_sucursal'', JStr ''S2''), (''cantidad_actual'', JNum (Fin 10))]])
      = Inr \<lparr>id_producto = JStr ''P'', solicitado = Fin 5, disponible = Fin 20,
             id_sucursal_sugerida = JNull\<rparr>"
proof -
  let ?it = "JObj [(''id_producto'', JStr ''P''), (''cantidad'', JNum (Fin 5))]"
  let ?st = "JArr [JObj [(''cantidad_actual'', JNum (Fin 10))],
               JObj [(''id_sucursal'', JStr ''S2''), (''cantidad_actual'', JNum (Fin 10))]]"
  obtain i where i: "item_of conversions0 ?it ?st = Inr i"
    and f: "id_producto i = JStr ''P''" "solicitado i = Fin 5" "disponible i = Fin 20"
    by (simp add: eval_defs round64_eval)
  have "id_sucursal_sugerida i = JNull"
    using sugerida_sin_sucursal [of conversions0 ?it ?st i 0 "Fin 10" Undefined] i f
    by (simp add: eval_defs)
  with i f show ?thesis by (cases i) simp
qed

text \<open>
  C1.  In every validation result, \<^verbatim>\<open>estado_sugerido\<close> is VALIDADA exactly when every
  item has \<^verbatim>\<open>disponible >= solicitado\<close>, PARCIAL exactly when that fails and some
  item has \<^verbatim>\<open>disponible > 0\<close>, and RECHAZADA exactly when both fail; the handler
  answers 200 with that result.  Such a result is returned whenever the recipe lookup
  is fulfilled, \<^verbatim>\<open>detalle\<close> is an array (or falsy), and for every ingredient the stock
  lookup is fulfilled and the mapper returns an item: its \<^verbatim>\<open>items\<close> are those items,
  in the order of the ingredients.  A recipe whose \<^verbatim>\<open>detalle\<close> is the empty list
  gives VALIDADA with no items.
\<close>

theorem estado_sugerido_iff:
  "(snd (validacion_try B up ident) = Inr v \<longrightarrow>
      (estado_sugerido v = ''VALIDADA'' \<longleftrightarrow>
         (\<forall>i\<in>set (items v). js_ge (disponible i) (solicitado i)))
    \<and> (estado_sugerido v = ''PARCIAL'' \<longleftrightarrow>
         \<not> (\<forall>i\<in>set (items v). js_ge (disponible i) (solicitado i))
         \<and> (\<exists>i\<in>set (items v). js_gt (disponible i) (Fin 0)))
    \<and> (estado_sugerido v = ''RECHAZADA'' \<longleftrightarrow>
         \<not> (\<forall>i\<in>set (items v). js_ge (disponible i) (solicitado i))
         \<and> \<not> (\<exists>i\<in>set (items v). js_gt (disponible i) (Fin 0)))
    \<and> snd (validacion B up ident) = (200, validation_json v))
   \<and> (up 0 (RecetasReceta ident) = (t, Inr r)
        \<and> get_prop (data r) ''detalle'' = Inr d \<and> or_empty d = JArr its
        \<and> get_prop (data r) ''id_receta'' = Inr rid
        \<and> length rs = length its
        \<and> (\<forall>k<length its. \<exists>pid t' r'.
               get_prop (its ! k) ''id_producto'' = Inr pid
             \<and> up (Suc k) (InventarioStock pid Undefined) = (t', Inr r')
             \<and> item_of B (its ! k) (data r') = Inr (rs ! k)) \<longrightarrow>
      (\<exists>e. snd (validacion_try B up ident) =
              Inr \<lparr>id_receta = rid, estado_sugerido = e, items = rs\<rparr>
          \<and> snd (validacion B up ident) =
              (200, validation_json \<lparr>id_receta = rid, estado_sugerido = e, items = rs\<rparr>)
          \<and> (e = ''VALIDADA'' \<longleftrightarrow> (\<forall>i\<in>set rs. js_ge (disponible i) (solicitado i)))
          \<and> (e = ''PARCIAL'' \<longleftrightarrow>
               \<not> (\<forall>i\<in>set rs. js_ge (disponible i) (solicitado i))
               \<and> (\<exists>i\<in>set rs. js_gt (disponible i) (Fin 0)))
          \<and> (e = ''RECHAZADA'' \<longleftrightarrow>
               \<not> (\<forall>i\<in>set rs. js_ge (disponible i) (solicitado i))
               \<and> \<not> (\<exists>i\<in>set rs. js_gt (disponible i) (Fin 0)))))
   \<and> (up 0 (RecetasReceta ident) = (t, Inr r)
        \<and> get_prop (data r) ''detalle'' = Inr (JArr [])
        \<and> get_prop (data r) ''id_receta'' = Inr rid \<longrightarrow>
      validacion_try B up ident =
        ([RecetasReceta ident],
         Inr \<lparr>id_receta = rid, estado_sugerido = ''VALIDADA'', items = []\<rparr>))"
proof (intro conjI impI)
  assume v: "snd (validacion_try B up ident) = Inr v"
  note e = estado_cases [OF v]
  show "estado_sugerido v = ''VALIDADA'' \<longleftrightarrow>
         (\<forall>i\<in>set (items v). js_ge (disponible i) (solicitado i))"
    using e by (simp add: ok_def list_all_iff)
  show "estado_sugerido v = ''PARCIAL'' \<longleftrightarrow>
         \<not> (\<forall>i\<in>set (items v). js_ge (disponible i) (solicitado i))
         \<and> (\<exists>i\<in>set (items v). js_gt (disponible i) (Fin 0))"
    using e by (simp add: ok_def parcial_def list_all_iff list_ex_iff)
  show "estado_sugerido v = ''RECHAZADA'' \<longleftrightarrow>
         \<not> (\<forall>i\<in>set (items v). js_ge (disponible i) (solicitado i))
         \<and> \<not> (\<exists>i\<in>set (items v). js_gt (disponible i) (Fin 0))"
    using e by (simp add: ok_def parcial_def list_all_iff list_ex_iff)
  show "snd (validacion B up ident) = (200, validation_json v)"
    using v by (rule validacion_Inr)
next
  assume h: "up 0 (RecetasReceta ident) = (t, Inr r)
        \<and> get_prop (data r) ''detalle'' = Inr d \<and> or_empty d = JArr its
        \<and> get_prop (data r) ''id_receta'' = Inr rid
        \<and> length rs = length its
        \<and> (\<forall>k<length its. \<exists>pid t' r'.
               get_prop (its ! k) ''id_producto'' = Inr pid
             \<and> up (Suc k) (InventarioStock pid Undefined) = (t', Inr r')
             \<and> item_of B (its ! k) (data r') = Inr (rs ! k))"
  let ?e = "if ok rs then ''VALIDADA'' else if parcial rs then ''PARCIAL'' else ''RECHAZADA''"
  let ?v = "\<lparr>id_receta = rid, estado_sugerido = ?e, items = rs\<rparr>"
  from h validacion_try_returns [of up ident t r d its rid rs B]
  have a: "snd (validacion_try B up ident) = Inr ?v" by blast
  then have b: "snd (validacion B up ident) = (200, validation_json ?v)"
    by (rule validacion_Inr)
  have c: "?e = ''VALIDADA'' \<longleftrightarrow> (\<forall>i\<in>set rs. js_ge (disponible i) (solicitado i))"
    by (simp add: ok_def list_all_iff)
  have d: "?e = ''PARCIAL'' \<longleftrightarrow>
               \<not> (\<forall>i\<in>set rs. js_ge (disponible i) (solicitado i))
               \<and> (\<exists>i\<in>set rs. js_gt (disponible i) (Fin 0))"
    by (simp add: ok_def parcial_def list_all_iff list_ex_iff)
  have e: "?e = ''RECHAZADA'' \<longleftrightarrow>
               \<not> (\<forall>i\<in>set rs. js_ge (disponible i) (solicitado i))
               \<and> \<not> (\<exists>i\<in>set rs. js_gt (disponible i) (Fin 0))"
    by (simp add: ok_def parcial_def list_all_iff list_ex_iff)
  from a b c d e
  show "\<exists>e. snd (validacion_try B up ident) =
              Inr \<lparr>id_receta = rid, estado_sugerido = e, items = rs\<rparr>
          \<and> snd (validacion B up ident) =
              (200, validation_json \<lparr>id_receta = rid, estado_sugerido = e, items = rs\<rparr>)
          \<and> (e = ''VALIDADA'' \<longleftrightarrow> (\<forall>i\<in>set rs. js_ge (disponible i) (solicitado i)))
          \<and> (e = ''PARCIAL'' \<longleftrightarrow>
               \<not> (\<forall>i\<in>set rs. js_ge (disponible i) (solicitado i))
               \<and> (\<exists>i\<in>set rs. js_gt (disponible i) (Fin 0)))
          \<and> (e = ''RECHAZADA'' \<longleftrightarrow>
               \<not> (\<forall>i\<in>set rs. js_ge (disponible i) (solicitado i))
               \<and> \<not> (\<exists>i\<in>set rs. js_gt (disponible i) (Fin 0)))"
    by blast
next
  assume "up 0 (RecetasReceta ident) = (t, Inr r)
        \<and> get_prop (data r) ''detalle'' = Inr (JArr [])
        \<and> get_prop (data r) ''id_receta'' = Inr rid"
  then show "validacion_try B up ident =
        ([RecetasReceta ident],
         Inr \<lparr>id_receta = rid, estado_sugerido = ''VALIDADA'', items = []\<rparr>)"
    using validacion_try_empty [of up ident t r "JArr []" rid B] by (simp add: or_empty_def)
qed

theorem estado_sugerido_iff_witness:
  "snd (validacion_try conversions0 upstream_AB ''r1'') =
      Inr \<lparr>id_receta = JStr ''r1'', estado_sugerido = ''PARCIAL'', items = [item_A, item_B]\<rparr>
   \<and> snd (validacion_try conversions0 upstream_sin_stock ''r1'') =
      Inr \<lparr>id_receta = JStr ''r1'', estado_sugerido = ''RECHAZADA'',
           items = [\<lparr>id_producto = JStr ''A'', solicitado = Fin 5, disponible = Fin 0,
                      id_sucursal_sugerida = JNull\<rparr>,
                    \<lparr>id_producto = JStr ''B'', solicitado = Fin 3, disponible = Fin 0,
                      id_sucursal_sugerida = JNull\<rparr>]\<rparr>
   \<and> snd (validacion conversions0 upstream_sin_stock ''r1'') =
      (200,
       JObj [(''id_receta'', JStr ''r1''), (''estado_sugerido'', JStr ''RECHAZADA''),
             (''items'',
              JArr [JObj [(''id_producto'', JStr ''A''), (''solicitado'', JNum (Fin 5)),
                          (''disponible'', JNum (Fin 0)), (''id_sucursal_sugerida'', JNull)],
                    JObj [(''id_producto'', JStr ''B''), (''solicitado'', JNum (Fin 3)),
                          (''disponible'', JNum (Fin 0)), (''id_sucursal_sugerida'', JNull)]])])
   \<and> snd (validacion_try conversions0 upstream_con_stock ''r1'') =
      Inr \<lparr>id_receta = JStr ''r1'', estado_sugerido = ''VALIDADA'',
           items = [\<lparr>id_producto = JStr ''A'', solicitado = Fin 5, disponible = Fin 50,
                      id_sucursal_sugerida = JStr ''S1''\<rparr>,
                    \<lparr>id_producto = JStr ''B'', solicitado = Fin 3, disponible = Fin 50,
                      id_sucursal_sugerida = JStr ''S1''\<rparr>]\<rparr>
   \<and> validacion_try conversions0
        (upstream_of (0, Inl no_response) (\<lambda>p. (0, Inl no_response))
           (1, Inr \<lparr>status = 200,
                    data = JObj [(''id_receta'', JStr ''r2''), (''detalle'', JArr [])]\<rparr>))
        ''r2'' =
       ([RecetasReceta ''r2''],
        Inr \<lparr>id_receta = JStr ''r2'', estado_sugerido = ''VALIDADA'', items = []\<rparr>)"
proof -
  let ?cat = "(1::nat, Inl (http_error 404 (JObj [(''detail'', JStr ''Not found'')]))
                :: js_error + http_response)"
  let ?rec = "(1::nat, Inr \<lparr>status = 200, data = receta_AB\<rparr> :: js_error + http_response)"
  let ?r = "\<lparr>status = 200, data = receta_AB\<rparr>"
  let ?v0 = "\<lparr>id_receta = JNull, estado_sugerido = [], items = []\<rparr>"
  \<comment> \<open>the worked example: PARCIAL\<close>
  let ?stk1 = "\<lambda>p. if p = JStr ''A'' then (3::nat, Inr \<lparr>status = 200, data = stock_A\<rparr>)
                   else (2, Inr \<lparr>status = 200, data = stock_B\<rparr> :: js_error + http_response)"
  have h1: "item_of conversions0 (detalle_AB ! 0) stock_A = Inr item_A"
    "item_of conversions0 (detalle_AB ! 1) stock_B = Inr item_B"
    by (simp_all add: eval_defs round64_eval detalle_AB_def stock_A_def stock_B_def
        item_A_def item_B_def)
  have s1: "?stk1 (JStr ''A'') = (3, Inr \<lparr>status = 200, data = stock_A\<rparr>)"
    "?stk1 (JStr ''B'') = (2, Inr \<lparr>status = 200, data = stock_B\<rparr>)"
    by simp_all
  note H1 = run_hyps [of ?stk1 3 stock_A 2 stock_B item_A item_B ?cat, OF s1 h1]
  note T1 = estado_sugerido_iff [of conversions0 "upstream_of ?cat ?stk1 ?rec" "''r1''" ?v0 1 ?r
      "JArr detalle_AB" detalle_AB "JStr ''r1''" "[item_A, item_B]"]
  from mp [OF T1 [THEN conjunct2, THEN conjunct1] H1]
  obtain e1 where r1: "snd (validacion_try conversions0 (upstream_of ?cat ?stk1 ?rec) ''r1'') =
        Inr \<lparr>id_receta = JStr ''r1'', estado_sugerido = e1, items = [item_A, item_B]\<rparr>"
    and p1: "e1 = ''PARCIAL'' \<longleftrightarrow>
               \<not> (\<forall>i\<in>set [item_A, item_B]. js_ge (disponible i) (solicitado i))
               \<and> (\<exists>i\<in>set [item_A, item_B]. js_gt (disponible i) (Fin 0))"
    by (elim exE conjE)
  from p1 have "e1 = ''PARCIAL''" by (simp add: item_A_def item_B_def)
  with r1 have A: "snd (validacion_try conversions0 upstream_AB ''r1'') =
      Inr \<lparr>id_receta = JStr ''r1'', estado_sugerido = ''PARCIAL'', items = [item_A, item_B]\<rparr>"
    by (simp only: upstream_AB_def)
  \<comment> \<open>no stock anywhere: RECHAZADA\<close>
  let ?s0 = "JArr [JObj [(''id_sucursal'', JStr ''S1''), (''cantidad_actual'', JNum (Fin 0))]]"
  let ?stk2 = "\<lambda>p::jsval. (2::nat, Inr \<lparr>status = 200, data = ?s0\<rparr> :: js_error + http_response)"
  let ?a0 = "\<lparr>id_producto = JStr ''A'', solicitado = Fin 5, disponible = Fin 0,
                      id_sucursal_sugerida = JNull\<rparr>"
  let ?b0 = "\<lparr>id_producto = JStr ''B'', solicitado = Fin 3, disponible = Fin 0,
                      id_sucursal_sugerida = JNull\<rparr>"
  have h2: "item_of conversions0 (detalle_AB ! 0) ?s0 = Inr ?a0"
    "item_of conversions0 (detalle_AB ! 1) ?s0 = Inr ?b0"
    by (simp_all add: eval_defs round64_eval detalle_AB_def)
  have s2: "?stk2 (JStr ''A'') = (2, Inr \<lparr>status = 200, data = ?s0\<rparr>)"
    "?stk2 (JStr ''B'') = (2, Inr \<lparr>status = 200, data = ?s0\<rparr>)"
    by simp_all
  note H2 = run_hyps [of ?stk2 2 ?s0 2 ?s0 ?a0 ?b0 ?cat, OF s2 h2]
  note T2 = estado_sugerido_iff [of conversions0 "upstream_of ?cat ?stk2 ?rec" "''r1''" ?v0 1 ?r
      "JArr detalle_AB" detalle_AB "JStr ''r1''" "[?a0, ?b0]"]
  from mp [OF T2 [THEN conjunct2, THEN conjunct1] H2]
  obtain e2 where r2: "snd (validacion_try conversions0 (upstream_of ?cat ?stk2 ?rec) ''r1'') =
        Inr \<lparr>id_receta = JStr ''r1'', estado_sugerido = e2, items = [?a0, ?b0]\<rparr>"
    and j2: "snd (validacion conversions0 (upstream_of ?cat ?stk2 ?rec) ''r1'') =
        (200, validation_json
                \<lparr>id_receta = JStr ''r1'', estado_sugerido = e2, items = [?a0, ?b0]\<rparr>)"
    and p2: "e2 = ''RECHAZADA'' \<longleftrightarrow>
               \<not> (\<forall>i\<in>set [?a0, ?b0]. js_ge (disponible i) (solicitado i))
               \<and> \<not> (\<exists>i\<in>set [?a0, ?b0]. js_gt (disponible i) (Fin 0))"
    by (elim exE conjE)
  from p2 have "e2 = ''RECHAZADA''" by simp
  with r2 have B: "snd (validacion_try conversions0 upstream_sin_stock ''r1'') =
      Inr \<lparr>id_receta = JStr ''r1'', estado_sugerido = ''RECHAZADA'', items = [?a0, ?b0]\<rparr>"
    by (simp only: upstream_sin_stock_def)
  from j2 \<open>e2 = ''RECHAZADA''\<close>
  have B': "snd (validacion conversions0 upstream_sin_stock ''r1'') =
      (200,
       JObj [(''id_receta'', JStr ''r1''), (''estado_sugerido'', JStr ''RECHAZADA''),
             (''items'',
              JArr [JObj [(''id_producto'', JStr ''A''), (''solicitado'', JNum (Fin 5)),
                          (''disponible'', JNum (Fin 0)), (''id_sucursal_sugerida'', JNull)],
                    JObj [(''id_producto'', JStr ''B''), (''solicitado'', JNum (Fin 3)),
                          (''disponible'', JNum (Fin 0)), (''id_sucursal_sugerida'', JNull)]])])"
    by (simp add: upstream_sin_stock_def validation_json_def item_json_def)
  \<comment> \<open>enough stock for both: VALIDADA\<close>
  let ?s50 = "JArr [JObj [(''id_sucursal'', JStr ''S1''), (''cantidad_actual'', JNum (Fin 50))]]"
  let ?stk3 = "\<lambda>p::jsval. (2::nat, Inr \<lparr>status = 200, data = ?s50\<rparr> :: js_error + http_response)"
  let ?a50 = "\<lparr>id_producto = JStr ''A'', solicitado = Fin 5, disponible = Fin 50,
                      id_sucursal_sugerida = JStr ''S1''\<rparr>"
  let ?b50 = "\<lparr>id_producto = JStr ''B'', solicitado = Fin 3, disponible = Fin 50,
                      id_sucursal_sugerida = JStr ''S1''\<rparr>"
  have h3: "item_of conversions0 (detalle_AB ! 0) ?s50 = Inr ?a50"
    "item_of conversions0 (detalle_AB ! 1) ?s50 = Inr ?b50"
    by (simp_all add: eval_defs round64_eval detalle_AB_def)
  have s3: "?stk3 (JStr ''A'') = (2, Inr \<lparr>status = 200, data = ?s50\<rparr>)"
    "?stk3 (JStr ''B'') = (2, Inr \<lparr>status = 200, data = ?s50\<rparr>)"
    by simp_all
  note H3 = run_hyps [of ?stk3 2 ?s50 2 ?s50 ?a50 ?b50 ?cat, OF s3 h3]
  note T3 = estado_sugerido_iff [of conversions0 "upstream_of ?cat ?stk3 ?rec" "''r1''" ?v0 1 ?r
      "JArr detalle_AB" detalle_AB "JStr ''r1''" "[?a50, ?b50]"]
  from mp [OF T3 [THEN conjunct2, THEN conjunct1] H3]
  obtain e3 where r3: "snd (validacion_try conversions0 (upstream_of ?cat ?stk3 ?rec) ''r1'') =
        Inr \<lparr>id_receta = JStr ''r1'', estado_sugerido = e3, items = [?a50, ?b50]\<rparr>"
    and p3: "e3 = ''VALIDADA'' \<longleftrightarrow>
               (\<forall>i\<in>set [?a50, ?b50]. js_ge (disponible i) (solicitado i))"
    by (elim exE conjE)
  from p3 have "e3 = ''VALIDADA''" by simp
  with r3 have C: "snd (validacion_try conversions0 upstream_con_stock ''r1'') =
      Inr \<lparr>id_receta = JStr ''r1'', estado_sugerido = ''VALIDADA'', items = [?a50, ?b50]\<rparr>"
    by (simp only: upstream_con_stock_def)
  \<comment> \<open>no ingredient\<close>
  let ?r4 = "\<lparr>status = 200, data = JObj [(''id_receta'', JStr ''r2''), (''detalle'', JArr [])]\<rparr>"
  let ?up4 = "upstream_of (0, Inl no_response) (\<lambda>p. (0, Inl no_response)) (1, Inr ?r4)"
  note T4 = estado_sugerido_iff [of conversions0 ?up4 "''r2''" ?v0 1 ?r4
        "JArr []" "[]" "JStr ''r2''" "[]"]
  have H4: "?up4 0 (RecetasReceta ''r2'') = (1, Inr ?r4)
        \<and> get_prop (data ?r4) ''detalle'' = Inr (JArr [])
        \<and> get_prop (data ?r4) ''id_receta'' = Inr (JStr ''r2'')"
    by (simp add: upstream_of_def)
  from mp [OF T4 [THEN conjunct2, THEN conjunct2] H4]
  have D: "validacion_try conversions0 ?up4 ''r2'' =
       ([RecetasReceta ''r2''],
        Inr \<lparr>id_receta = JStr ''r2'', estado_sugerido = ''VALIDADA'', items = []\<rparr>)" .
  \<comment> \<open>the same runs, evaluated step by step\<close>
  have "snd (validacion_try conversions0 upstream_sin_stock ''r1'') =
      Inr \<lparr>id_receta = JStr ''r1'', estado_sugerido = ''RECHAZADA'', items = [?a0, ?b0]\<rparr>"
    "snd (validacion_try conversions0 upstream_AB ''r1'') =
      Inr \<lparr>id_receta = JStr ''r1'', estado_sugerido = ''PARCIAL'', items = [item_A, item_B]\<rparr>"
    by (simp_all add: handler_defs eval_defs round64_eval upstream_sin_stock_def upstream_AB_def
        receta_AB_def stock_A_def stock_B_def item_A_def item_B_def)
  with A B B' C D show ?thesis by (intro conjI)
qed

text \<open>
  C9.  For a recipe payload whose \<^verbatim>\<open>detalle\<close> is absent or null (a payload on which a
  property can be read: anything but null or undefined itself), the handler does not
  fail: only the recipe request is issued, and the answer is 200 with VALIDADA and an
  empty \<^verbatim>\<open>items\<close>.
\<close>

theorem validacion_sin_detalle:
  assumes "up 0 (RecetasReceta ident) = (t, Inr r)"
    and "get_prop (data r) ''detalle'' = Inr d" and "nullish d"
    and "get_prop (data r) ''id_receta'' = Inr rid"
  shows "validacion_try B up ident =
           ([RecetasReceta ident],
            Inr \<lparr>id_receta = rid, estado_sugerido = ''VALIDADA'', items = []\<rparr>)
       \<and> validacion B up ident =
           ([RecetasReceta ident],
            (200, JObj [(''id_receta'', rid), (''estado_sugerido'', JStr ''VALIDADA''),
                        (''items'', JArr [])]))"
proof -
  from assms(3) have "or_empty d = JArr []" by (auto simp: nullish_def or_empty_def)
  with assms validacion_try_empty [of up ident t r d rid B]
  have a: "validacion_try B up ident =
           ([RecetasReceta ident],
            Inr \<lparr>id_receta = rid, estado_sugerido = ''VALIDADA'', items = []\<rparr>)"
    by simp
  then show ?thesis by (simp add: validacion_def validation_json_def)
qed

theorem validacion_sin_detalle_witness:
  "validacion conversions0
     (upstream_of (0, Inl no_response) (\<lambda>p. (0, Inl no_response))
        (1, Inr \<lparr>status = 200, data = JObj [(''id_receta'', JStr ''r3'')]\<rparr>))
     ''r3'' =
     ([RecetasReceta ''r3''],
      (200, JObj [(''id_receta'', JStr ''r3''), (''estado_sugerido'', JStr ''VALIDADA''),
                  (''items'', JArr [])]))
   \<and> validacion conversions0
     (upstream_of (0, Inl no_response) (\<lambda>p. (0, Inl no_response))
        (1, Inr \<lparr>status = 200,
                 data = JObj [(''id_receta'', JStr ''r4''), (''detalle'', JNull)]\<rparr>))
     ''r4'' =
     ([RecetasReceta ''r4''],
      (200, JObj [(''id_receta'', JStr ''r4''), (''estado_sugerido'', JStr ''VALIDADA''),
                  (''items'', JArr [])]))"
  using validacion_sin_detalle [of
      "upstream_of (0, Inl no_response) (\<lambda>p. (0, Inl no_response))
        (1, Inr \<lparr>status = 200, data = JObj [(''id_receta'', JStr ''r3'')]\<rparr>)"
      "''r3''" 1 "\<lparr>status = 200, data = JObj [(''id_receta'', JStr ''r3'')]\<rparr>"
      Undefined "JStr ''r3''" conversions0]
    validacion_sin_detalle [of
      "upstream_of (0, Inl no_response) (\<lambda>p. (0, Inl no_response))
        (1, Inr \<lparr>status = 200,
                 data = JObj [(''id_receta'', JStr ''r4''), (''detalle'', JNull)]\<rparr>)"
      "''r4''" 1
      "\<lparr>status = 200, data = JObj [(''id_receta'', JStr ''r4''), (''detalle'', JNull)]\<rparr>"
      JNull "JStr ''r4''" conversions0]
  by (simp add: upstream_of_def nullish_def)

end
